theory Spec2Isabelle
  imports Complex_Main "HOL-Library.Char_ord" "HOL-Library.List_Lexorder"
begin

section \<open>Python values: errors, data frames, arrays\<close>

text \<open>
  Every exception the modelled Python can raise is a value of \<open>error\<close>; a function that
  may raise returns \<open>error + 'a\<close> with \<open>Inl\<close> for the exception.
\<close>

datatype error = KeyError | IndexError | ValueError | TypeError

text \<open>
  A pandas column is a typed array. Numeric columns are \<open>float64\<close> or \<open>int64\<close>; floats are
  modelled by exact reals, so rounding and NaN are outside the model. Everything else
  (geometries, text) is an \<open>object\<close> column.
\<close>

datatype series = FloatCol "real list" | IntCol "int list" | ObjCol "string list"

datatype cell = FloatV real | IntV int | ObjV string

text \<open>
  A data frame is its columns in order, each with its name. The number of rows is the
  length of its columns (a frame without columns counts as having no rows).
\<close>

type_synonym frame = "(string \<times> series) list"

fun series_len :: "series \<Rightarrow> nat" where
  "series_len (FloatCol xs) = length xs"
| "series_len (IntCol xs) = length xs"
| "series_len (ObjCol xs) = length xs"

fun cells :: "series \<Rightarrow> cell list" where
  "cells (FloatCol xs) = map FloatV xs"
| "cells (IntCol xs) = map IntV xs"
| "cells (ObjCol xs) = map ObjV xs"

fun is_number :: "series \<Rightarrow> bool" where
  "is_number (FloatCol xs) = True"
| "is_number (IntCol xs) = True"
| "is_number (ObjCol xs) = False"

fun as_real :: "series \<Rightarrow> real list" where
  "as_real (FloatCol xs) = xs"
| "as_real (IntCol xs) = map of_int xs"
| "as_real (ObjCol xs) = []"

definition columns :: "frame \<Rightarrow> string list" where
  "columns df = map fst df"

definition lookup :: "frame \<Rightarrow> string \<Rightarrow> series option" where
  "lookup df c = map_of df c"

definition nrows :: "frame \<Rightarrow> nat" where
  "nrows df = (case df of [] \<Rightarrow> 0 | (c, s) # rest \<Rightarrow> series_len s)"

definition wf_frame :: "frame \<Rightarrow> bool" where
  "wf_frame df = (distinct (columns df) \<and> list_all (\<lambda>(c, s). series_len s = nrows df) df)"

text \<open>\<open>df.drop(columns=names, errors="ignore")\<close>\<close>

definition drop_columns :: "string list \<Rightarrow> frame \<Rightarrow> frame" where
  "drop_columns names df = filter (\<lambda>(c, s). c \<notin> set names) df"

text \<open>\<open>df[c] = s\<close>: an existing column is replaced in place, a new one is appended.\<close>

fun set_column :: "frame \<Rightarrow> string \<Rightarrow> series \<Rightarrow> frame" where
  "set_column [] c s = [(c, s)]"
| "set_column ((c', s') # df) c s =
     (if c' = c then (c, s) # df else (c', s') # set_column df c s)"

text \<open>\<open>df.values\<close> for a frame of \<open>n\<close> rows: the rows, each a list of cells.\<close>

definition row_values :: "nat \<Rightarrow> frame \<Rightarrow> cell list list" where
  "row_values n df = map (\<lambda>i. map (\<lambda>(c, s). cells s ! i) df) [0..<n]"

text \<open>Indexing a one-dimensional array by a non-negative index.\<close>

definition np_get :: "'a list \<Rightarrow> nat \<Rightarrow> error + 'a" where
  "np_get xs i = (if i < length xs then Inr (xs ! i) else Inl IndexError)"

text \<open>A list comprehension whose element expression may raise stops at the first raise.\<close>

fun sequence :: "(error + 'a) list \<Rightarrow> error + 'a list" where
  "sequence [] = Inr []"
| "sequence (r # rs) =
     (case r of Inl e \<Rightarrow> Inl e
      | Inr v \<Rightarrow> (case sequence rs of Inl e \<Rightarrow> Inl e | Inr vs \<Rightarrow> Inr (v # vs)))"

section \<open>The trained map\<close>

text \<open>
  \<open>som.get_weights()\<close> is a numpy array of shape \<open>(x_dim, y_dim, features)\<close>: a flat
  row-major buffer with its shape. \<open>som.winner\<close> and the agglomerative clustering
  belong to external libraries and are parameters of the functions below.
\<close>

record som =
  x_dim :: nat
  y_dim :: nat
  n_features :: nat
  weights :: "real list"

type_synonym winner_fn = "som \<Rightarrow> cell list \<Rightarrow> nat \<times> nat"

type_synonym clustering = "int \<Rightarrow> real list list \<Rightarrow> error + int list"

text \<open>\<open>weights.reshape(x_dim * y_dim, -1)\<close>; numpy cannot infer \<open>-1\<close> for an empty array.\<close>

definition flat_weights :: "som \<Rightarrow> error + real list list" where
  "flat_weights m =
     (if x_dim m * y_dim m * n_features m = 0 then Inl ValueError
      else Inr (map (\<lambda>k. take (n_features m) (drop (k * n_features m) (weights m)))
                  [0..<x_dim m * y_dim m]))"

text \<open>
  Lines 32--36 of \<open>assign_clusters\<close> and lines 39--46 of \<open>build_hex_plot\<close>: flatten the node
  weights and cluster them into \<open>n_clusters\<close> groups.
\<close>

definition node_clustering :: "clustering \<Rightarrow> som \<Rightarrow> int \<Rightarrow> error + int list" where
  "node_clustering fit_predict m n_clusters =
     (case flat_weights m of Inl e \<Rightarrow> Inl e | Inr fw \<Rightarrow> fit_predict n_clusters fw)"

section \<open>cluster\_analysis.py\<close>

text \<open>
  \<open>df[c] = xs\<close> for a Python list of integers: an \<open>int64\<close> column, except that pandas
  gives the column made from an empty list the dtype \<open>float64\<close>.
\<close>

definition int_column :: "int list \<Rightarrow> series" where
  "int_column xs = (if xs = [] then FloatCol [] else IntCol xs)"

definition assign_clusters :: "winner_fn \<Rightarrow> clustering \<Rightarrow> som \<Rightarrow> frame \<Rightarrow> int \<Rightarrow> error + frame" where
  "assign_clusters winner fit_predict m data_df n_clusters =
     (case node_clustering fit_predict m n_clusters of Inl e \<Rightarrow> Inl e
      | Inr node_labels \<Rightarrow>
        (let features = drop_columns [''hex_x'', ''hex_y''] data_df;
             vals = row_values (nrows data_df) features;
             bmus = map (winner m) vals;
             bmu_x = map fst bmus;
             bmu_y = map snd bmus;
             flat_idx = map (\<lambda>(i, j). i * y_dim m + j) bmus
         in case sequence (map (np_get node_labels) flat_idx) of Inl e \<Rightarrow> Inl e
            | Inr clusters \<Rightarrow>
                Inr (set_column
                      (set_column
                        (set_column data_df ''bmu_x'' (int_column (map int bmu_x)))
                        ''bmu_y'' (int_column (map int bmu_y)))
                      ''hc_cluster'' (int_column clusters))))"

definition bookkeeping :: "string list" where
  "bookkeeping = [''hc_cluster'', ''bmu_x'', ''bmu_y'', ''hex_x'', ''hex_y'']"

text \<open>\<open>df.select_dtypes\<close> for the numeric dtypes.\<close>

definition select_number :: "frame \<Rightarrow> frame" where
  "select_number df = filter (\<lambda>(c, s). is_number s) df"

text \<open>\<open>df[names]\<close>: the named columns, in the order of the names.\<close>

definition select_columns :: "string list \<Rightarrow> frame \<Rightarrow> frame" where
  "select_columns names df =
     concat (map (\<lambda>c. case lookup df c of None \<Rightarrow> [] | Some s \<Rightarrow> [(c, s)]) names)"

definition mean :: "real list \<Rightarrow> real" where
  "mean xs = sum_list xs / real (length xs)"

text \<open>The values of a column in the rows whose key is \<open>k\<close>.\<close>

definition group_values :: "'k list \<Rightarrow> real list \<Rightarrow> 'k \<Rightarrow> real list" where
  "group_values ks vs k = map snd (filter (\<lambda>(k', v). k' = k) (zip ks vs))"

text \<open>\<open>groupby\<close> sorts the distinct keys.\<close>

definition group_keys :: "('k::linorder) list \<Rightarrow> 'k list" where
  "group_keys ks = sort (remdups ks)"

definition groupby_mean :: "('k::linorder) list \<Rightarrow> frame \<Rightarrow> frame" where
  "groupby_mean ks cols =
     map (\<lambda>(c, s). (c, FloatCol (map (\<lambda>k. mean (group_values ks (as_real s) k)) (group_keys ks))))
       cols"

definition compute_cluster_means :: "frame \<Rightarrow> error + frame" where
  "compute_cluster_means hex_df =
     (let numeric_cols = columns (select_number hex_df);
          numeric_cols = filter (\<lambda>c. c \<notin> set bookkeeping) numeric_cols;
          selected = select_columns numeric_cols hex_df
      in case lookup hex_df ''hc_cluster'' of
           None \<Rightarrow> Inl KeyError
         | Some (IntCol ks) \<Rightarrow>
             Inr ((''hc_cluster'', IntCol (group_keys ks)) # groupby_mean ks selected)
         | Some (FloatCol ks) \<Rightarrow>
             Inr ((''hc_cluster'', FloatCol (group_keys ks)) # groupby_mean ks selected)
         | Some (ObjCol ks) \<Rightarrow>
             Inr ((''hc_cluster'', ObjCol (group_keys ks)) # groupby_mean ks selected))"

section \<open>data\_loader.py\<close>

text \<open>
  \<open>StandardScaler().fit_transform\<close> of scikit-learn, on the columns of the array: each
  column has its mean subtracted and is divided by the scaler's \<open>scale_\<close>, the population
  standard deviation of the column, where the library replaces a standard deviation of
  zero by one before dividing. The library rejects an array without rows or without
  columns. The scaler is library code: this is its documented behaviour.
\<close>

definition scaler_scale :: "real list \<Rightarrow> real" where
  "scaler_scale xs =
     (let mu = mean xs;
          var = mean (map (\<lambda>x. (x - mu)\<^sup>2) xs);
          s = sqrt var
      in if s = 0 then 1 else s)"

definition standard_scale :: "real list \<Rightarrow> real list" where
  "standard_scale xs =
     (let mu = mean xs;
          scale = scaler_scale xs
      in map (\<lambda>x. (x - mu) / scale) xs)"

definition fit_transform :: "real list list \<Rightarrow> error + real list list" where
  "fit_transform X =
     (if X = [] \<or> list_ex (\<lambda>col. col = []) X then Inl ValueError
      else Inr (map standard_scale X))"

definition carry_coord :: "frame \<Rightarrow> string \<Rightarrow> frame \<Rightarrow> frame" where
  "carry_coord gdf coord scaled_df =
     (case lookup gdf coord of None \<Rightarrow> scaled_df | Some s \<Rightarrow> set_column scaled_df coord s)"

definition scale_data :: "frame \<Rightarrow> string list option \<Rightarrow> error + (frame \<times> frame)" where
  "scale_data gdf exclude_cols_arg =
     (let exclude_cols = (case exclude_cols_arg of None \<Rightarrow> [] | Some cs \<Rightarrow> cs);
          numeric = select_number gdf;
          numeric = drop_columns (filter (\<lambda>c. c \<in> set (columns numeric)) exclude_cols) numeric
      in case fit_transform (map (\<lambda>(c, s). as_real s) numeric) of Inl e \<Rightarrow> Inl e
         | Inr scaled_arr \<Rightarrow>
             (let scaled_df = zip (columns numeric) (map FloatCol scaled_arr);
                  scaled_df = carry_coord gdf ''hex_x'' scaled_df;
                  scaled_df = carry_coord gdf ''hex_y'' scaled_df
              in Inr (scaled_df, gdf)))"

text \<open>
  The columns that \<open>scale_data\<close> hands to the scaler (lines 41--43): the numeric columns
  without the excluded ones.
\<close>

definition scaled_columns :: "frame \<Rightarrow> string list \<Rightarrow> frame" where
  "scaled_columns gdf excl =
     drop_columns (filter (\<lambda>c. c \<in> set (columns (select_number gdf))) excl) (select_number gdf)"

section \<open>plots.py and main.py: sources, views and browser-side handlers\<close>

text \<open>
  A JavaScript value as the handlers see it: an array slot read out of range is
  \<open>undefined\<close>, \<open>_last_sel\<close> is \<open>undefined\<close> until first written and then \<open>null\<close> or
  an index.
\<close>

datatype jsval = Undefined | Null | Num int

fun js_index :: "int list \<Rightarrow> jsval \<Rightarrow> jsval" where
  "js_index xs (Num n) = (if 0 \<le> n \<and> n < int (length xs) then Num (xs ! nat n) else Undefined)"
| "js_index xs Undefined = Undefined"
| "js_index xs Null = Undefined"

text \<open>
  The node source of the hex plot with its selection, the map source with its selection,
  and the table's selection. The flag \<open>_skip\<close> is falsy until first written.
\<close>

record hex_source =
  hex_bmu_x :: "int list"
  hex_bmu_y :: "int list"
  hex_hc_cluster :: "int list"
  u_color :: "string list"
  color :: "string list"
  alpha :: "real list"
  display_color :: "string list"
  hex_selected :: "jsval list"
  hex_skip :: bool
  hex_last_sel :: jsval

record map_source =
  map_bmu_x :: "int list"
  map_bmu_y :: "int list"
  map_hc_cluster :: "int list"
  map_selected :: "jsval list"
  map_skip :: bool
  map_last_sel :: jsval

record dashboard =
  hex_src :: hex_source
  map_src :: map_source
  table_selected :: "jsval list"
  bar_c_visible :: bool
  bar_u_visible :: bool

subsection \<open>build\_hex\_plot\<close>

text \<open>Python's \<open>int\<close> of a float truncates towards zero.\<close>

definition py_int :: "real \<Rightarrow> int" where
  "py_int r = (if 0 \<le> r then \<lfloor>r\<rfloor> else \<lceil>r\<rceil>)"

text \<open>Subscripting a tuple or list by a Python integer; \<open>xs[-1]\<close> is the last element.\<close>

definition py_get :: "'a list \<Rightarrow> int \<Rightarrow> error + 'a" where
  "py_get xs i =
     (if 0 \<le> i \<and> i < int (length xs) then Inr (xs ! nat i)
      else if i < 0 \<and> - int (length xs) \<le> i then Inr (xs ! nat (int (length xs) + i))
      else Inl IndexError)"

definition np_min :: "real list \<Rightarrow> error + real" where
  "np_min xs = (case xs of [] \<Rightarrow> Inl ValueError | x # rest \<Rightarrow> Inr (fold min rest x))"

definition np_max :: "real list \<Rightarrow> error + real" where
  "np_max xs = (case xs of [] \<Rightarrow> Inl ValueError | x # rest \<Rightarrow> Inr (fold max rest x))"

text \<open>
  \<open>int(hex_df['hc_cluster'].max())\<close>: the maximum of an empty column is NaN, which \<open>int\<close>
  rejects. The maximum of an object column is not modelled and is rendered as an error.
\<close>

fun series_max_int :: "series \<Rightarrow> error + int" where
  "series_max_int (IntCol []) = Inl ValueError"
| "series_max_int (IntCol (k # ks)) = Inr (fold max ks k)"
| "series_max_int (FloatCol []) = Inl ValueError"
| "series_max_int (FloatCol (x # xs)) = Inr (py_int (fold max xs x))"
| "series_max_int (ObjCol xs) = Inl TypeError"

definition hex_n_clusters :: "frame \<Rightarrow> error + int" where
  "hex_n_clusters hex_df =
     (case lookup hex_df ''hc_cluster'' of None \<Rightarrow> Inl KeyError
      | Some s \<Rightarrow> (case series_max_int s of Inl e \<Rightarrow> Inl e | Inr mx \<Rightarrow> Inr (mx + 1)))"

text \<open>
  \<open>int((d - um_min)/(um_max - um_min)*255)\<close> on numpy floats: a zero denominator gives
  NaN, which \<open>int\<close> rejects.
\<close>

definition norm_index :: "real \<Rightarrow> real \<Rightarrow> real \<Rightarrow> error + int" where
  "norm_index um_min um_max d =
     (if um_max - um_min = 0 then Inl ValueError
      else Inr (py_int ((d - um_min) / (um_max - um_min) * 255)))"

record node_rec =
  rec_bmu_x :: int
  rec_bmu_y :: int
  rec_hc_cluster :: int
  rec_u_color :: string
  rec_color :: string
  rec_alpha :: real

definition node_record ::
  "string list \<Rightarrow> string list \<Rightarrow> int list \<Rightarrow> real list \<Rightarrow> real \<Rightarrow> real \<Rightarrow> nat \<Rightarrow> nat \<times> nat
     \<Rightarrow> error + node_rec" where
  "node_record viridis256 cluster_palette node_labels um_flat um_min um_max Y ij =
     (let i = fst ij; j = snd ij; idx = i * Y + j
      in case np_get um_flat idx of Inl e \<Rightarrow> Inl e | Inr d \<Rightarrow>
        (case norm_index um_min um_max d of Inl e \<Rightarrow> Inl e | Inr nrm \<Rightarrow>
        (case np_get node_labels idx of Inl e \<Rightarrow> Inl e | Inr label \<Rightarrow>
        (case py_get viridis256 nrm of Inl e \<Rightarrow> Inl e | Inr u \<Rightarrow>
        (case py_get cluster_palette label of Inl e \<Rightarrow> Inl e | Inr col \<Rightarrow>
           Inr \<lparr>rec_bmu_x = int i, rec_bmu_y = int j, rec_hc_cluster = label,
                rec_u_color = u, rec_color = col, rec_alpha = 1\<rparr>)))))"

text \<open>
  The node source that \<open>build_hex_plot\<close> returns. The palettes \<open>Category10[10]\<close> and
  \<open>Viridis256\<close> of the plotting library are parameters.
\<close>

definition build_hex_plot ::
  "clustering \<Rightarrow> string list \<Rightarrow> string list \<Rightarrow> frame \<Rightarrow> som \<Rightarrow> real list \<Rightarrow> error + hex_source" where
  "build_hex_plot fit_predict category10 viridis256 hex_df m um_flat =
     (case hex_n_clusters hex_df of Inl e \<Rightarrow> Inl e | Inr n_clusters \<Rightarrow>
     (let cluster_palette =
            take (nat n_clusters) (concat (replicate (nat (n_clusters div 10 + 1)) category10))
      in case node_clustering fit_predict m n_clusters of Inl e \<Rightarrow> Inl e | Inr node_labels \<Rightarrow>
        (case np_min um_flat of Inl e \<Rightarrow> Inl e | Inr um_min \<Rightarrow>
        (case np_max um_flat of Inl e \<Rightarrow> Inl e | Inr um_max \<Rightarrow>
        (case sequence (map (node_record viridis256 cluster_palette node_labels um_flat
                               um_min um_max (y_dim m))
                          (List.product [0..<x_dim m] [0..<y_dim m])) of
           Inl e \<Rightarrow> Inl e
         | Inr records \<Rightarrow>
             Inr \<lparr>hex_bmu_x = map rec_bmu_x records, hex_bmu_y = map rec_bmu_y records,
                  hex_hc_cluster = map rec_hc_cluster records,
                  u_color = map rec_u_color records, color = map rec_color records,
                  alpha = map rec_alpha records, display_color = map rec_color records,
                  hex_selected = [], hex_skip = False, hex_last_sel = Undefined\<rparr>)))))"

text \<open>The handler of the U-Matrix toggle; \<open>active\<close> is the toggle's new state.\<close>

definition toggle_change :: "bool \<Rightarrow> dashboard \<Rightarrow> dashboard" where
  "toggle_change active s =
     (let showU = active;
          colors = (if showU then u_color (hex_src s) else color (hex_src s))
      in s\<lparr>hex_src := (hex_src s)\<lparr>display_color := colors\<rparr>,
           bar_c_visible := \<not> showU, bar_u_visible := showU\<rparr>)"

subsection \<open>main.py: selection handlers\<close>

text \<open>
  Each handler is first modelled as the state transformer of its body, run to completion.
  The delivery of change events to the handlers follows below.
\<close>

definition indices_where :: "(nat \<Rightarrow> bool) \<Rightarrow> nat \<Rightarrow> jsval list" where
  "indices_where P n = map (\<lambda>j. Num (int j)) (filter P [0..<n])"

definition cluster_button_click :: "int \<Rightarrow> dashboard \<Rightarrow> dashboard" where
  "cluster_button_click cl s =
     (let hx = hex_hc_cluster (hex_src s);
          hex_inds = indices_where (\<lambda>j. hx ! j = cl) (length hx);
          mx = map_hc_cluster (map_src s);
          map_inds = indices_where (\<lambda>j. mx ! j = cl) (length mx);
          already = (length (table_selected s) = 1 \<and> table_selected s ! 0 = Num cl)
      in if already
         then s\<lparr>hex_src := (hex_src s)\<lparr>hex_selected := []\<rparr>,
                map_src := (map_src s)\<lparr>map_selected := []\<rparr>,
                table_selected := []\<rparr>
         else s\<lparr>hex_src := (hex_src s)\<lparr>hex_selected := hex_inds\<rparr>,
                map_src := (map_src s)\<lparr>map_selected := map_inds\<rparr>,
                table_selected := [Num cl]\<rparr>)"

definition hex_selected_change :: "dashboard \<Rightarrow> dashboard" where
  "hex_selected_change s =
     (let h = hex_src s; inds = hex_selected h
      in if hex_skip h then s\<lparr>hex_src := h\<lparr>hex_skip := False\<rparr>\<rparr>
         else if length inds = 1 \<and> hex_last_sel h = inds ! 0
         then s\<lparr>hex_src := h\<lparr>hex_skip := True, hex_selected := [], hex_last_sel := Null\<rparr>,
                map_src := (map_src s)\<lparr>map_selected := []\<rparr>,
                table_selected := []\<rparr>
         else (let h' = h\<lparr>hex_last_sel := (if length inds = 1 then inds ! 0 else Null)\<rparr>
               in if length inds = 0
                  then s\<lparr>hex_src := h', map_src := (map_src s)\<lparr>map_selected := []\<rparr>,
                         table_selected := []\<rparr>
                  else if length inds = 1
                  then (let idx = inds ! 0;
                            bxv = js_index (hex_bmu_x h) idx;
                            byv = js_index (hex_bmu_y h) idx;
                            xs = map_bmu_x (map_src s);
                            ys = map_bmu_y (map_src s);
                            region_inds =
                              indices_where
                                (\<lambda>i. Num (xs ! i) = bxv \<and> js_index ys (Num (int i)) = byv)
                                (length xs);
                            cl = js_index (hex_hc_cluster h) idx
                        in s\<lparr>hex_src := h', map_src := (map_src s)\<lparr>map_selected := region_inds\<rparr>,
                             table_selected := [cl]\<rparr>)
                  else s\<lparr>hex_src := h'\<rparr>))"

definition map_selected_change :: "dashboard \<Rightarrow> dashboard" where
  "map_selected_change s =
     (let g = map_src s; inds = map_selected g
      in if map_skip g then s\<lparr>map_src := g\<lparr>map_skip := False\<rparr>\<rparr>
         else if length inds = 1 \<and> map_last_sel g = inds ! 0
         then s\<lparr>map_src := g\<lparr>map_skip := True, map_selected := [], map_last_sel := Null\<rparr>,
                hex_src := (hex_src s)\<lparr>hex_selected := []\<rparr>,
                table_selected := []\<rparr>
         else (let g' = g\<lparr>map_last_sel := (if length inds = 1 then inds ! 0 else Null)\<rparr>
               in if length inds = 0
                  then s\<lparr>map_src := g', hex_src := (hex_src s)\<lparr>hex_selected := []\<rparr>,
                         table_selected := []\<rparr>
                  else if length inds = 1
                  then (let idx = inds ! 0;
                            bxv = js_index (map_bmu_x g) idx;
                            byv = js_index (map_bmu_y g) idx;
                            xs = hex_bmu_x (hex_src s);
                            ys = hex_bmu_y (hex_src s);
                            hex_i =
                              (case filter (\<lambda>i. Num (xs ! i) = bxv \<and> js_index ys (Num (int i)) = byv)
                                      [0..<length xs] of
                                 [] \<Rightarrow> Null | i # rest \<Rightarrow> Num (int i));
                            cl = js_index (map_hc_cluster g) idx
                        in s\<lparr>map_src := g',
                             hex_src := (hex_src s)\<lparr>hex_selected :=
                                          (if hex_i \<noteq> Null then [hex_i] else [])\<rparr>,
                             table_selected := [cl]\<rparr>)
                  else s\<lparr>map_src := g'\<rparr>))"

text \<open>The selections of the three views: hex nodes, map regions, table rows.\<close>

definition selections :: "dashboard \<Rightarrow> jsval list \<times> jsval list \<times> jsval list" where
  "selections s = (hex_selected (hex_src s), map_selected (map_src s), table_selected s)"

text \<open>The data columns of the two sources that the handlers read.\<close>

definition source_data ::
  "dashboard \<Rightarrow> (int list \<times> int list \<times> int list) \<times> (int list \<times> int list \<times> int list)" where
  "source_data s =
     ((hex_bmu_x (hex_src s), hex_bmu_y (hex_src s), hex_hc_cluster (hex_src s)),
      (map_bmu_x (map_src s), map_bmu_y (map_src s), map_hc_cluster (map_src s)))"

subsection \<open>main.py: delivery of the change events\<close>

text \<open>
  Lines 87 and 136 of \<open>main.py\<close> register the two handlers with \<open>js_on_change\<close> on the
  \<open>indices\<close> of the hex selection and of the map selection; nothing is registered on the
  table's selection. The delivery is the plotting library's: assigning \<open>selected.indices\<close>
  notifies the registered handler when the new array differs in value from the old one,
  and the notified handlers run after the running body has finished, one after the other
  in the order of their notifications, each to completion and on the state it then finds.
\<close>

datatype event = HexIndices | MapIndices

text \<open>
  The notifications of one body that assigns the selections named in \<open>writes\<close>, in this
  order, each at most once: between the state before and the state after, an assigned
  selection has fired when its value has changed.
\<close>

definition notified :: "event list \<Rightarrow> dashboard \<Rightarrow> dashboard \<Rightarrow> event list" where
  "notified writes s s' =
     filter (\<lambda>e. case e of
                 HexIndices \<Rightarrow> hex_selected (hex_src s') \<noteq> hex_selected (hex_src s)
               | MapIndices \<Rightarrow> map_selected (map_src s') \<noteq> map_selected (map_src s))
       writes"

text \<open>
  One handler run with its notifications. The hex handler assigns the hex selection
  before the map selection (lines 99--100), the map handler the other way round
  (lines 148--149).
\<close>

definition on_event :: "event \<Rightarrow> dashboard \<Rightarrow> dashboard \<times> event list" where
  "on_event e s =
     (case e of
        HexIndices \<Rightarrow>
          (let s' = hex_selected_change s in (s', notified [HexIndices, MapIndices] s s'))
      | MapIndices \<Rightarrow>
          (let s' = map_selected_change s in (s', notified [MapIndices, HexIndices] s s')))"

text \<open>
  Running the pending notifications until none is left. Nothing in the source bounds the
  number of handler runs, so the result is optional: \<open>None\<close> stands for a dashboard whose
  handlers notify each other for ever.
\<close>

partial_function (option) dispatch :: "event list \<Rightarrow> dashboard \<Rightarrow> dashboard option" where
  "dispatch pending s =
     (case pending of
        [] \<Rightarrow> Some s
      | e # rest \<Rightarrow> (case on_event e s of (s', es) \<Rightarrow> dispatch (rest @ es) s'))"

text \<open>
  A settled state: neither selection holds exactly one index, and if the hex or the map
  selection is empty then all three are. Both handlers leave such a state's selections
  as they are.
\<close>

definition stable :: "dashboard \<Rightarrow> bool" where
  "stable s =
     (case selections s of (hs, ms, ts) \<Rightarrow>
        length hs \<noteq> 1 \<and> length ms \<noteq> 1 \<and>
        (hs = [] \<or> ms = [] \<longrightarrow> hs = [] \<and> ms = [] \<and> ts = []))"

text \<open>
  A click on cluster button \<open>cl\<close>: the body of lines 57--83, which assigns the hex
  selection before the map selection, and then the handlers it has notified.
\<close>

definition button_click :: "int \<Rightarrow> dashboard \<Rightarrow> dashboard option" where
  "button_click cl s =
     (let s' = cluster_button_click cl s
      in dispatch (notified [HexIndices, MapIndices] s s') s')"

text \<open>
  A tap in the hex view: the view assigns the tapped indices to the hex selection, and
  the notified handlers run.
\<close>

definition hex_tap :: "jsval list \<Rightarrow> dashboard \<Rightarrow> dashboard option" where
  "hex_tap inds s =
     (let s' = s\<lparr>hex_src := (hex_src s)\<lparr>hex_selected := inds\<rparr>\<rparr>
      in dispatch (notified [HexIndices] s s') s')"

text \<open>
  A small dashboard for evaluating the handlers: a map of two nodes \<open>(0,0)\<close> and \<open>(0,1)\<close>
  in clusters 0 and 1, three regions, and cluster 0 selected in all three views.
\<close>

definition demo_dashboard :: dashboard where
  "demo_dashboard =
     \<lparr>hex_src = \<lparr>hex_bmu_x = [0, 0], hex_bmu_y = [0, 1], hex_hc_cluster = [0, 1],
                  u_color = [''#440154'', ''#FDE724''], color = [''#1f77b4'', ''#ff7f0e''],
                  alpha = [1, 1], display_color = [''#1f77b4'', ''#ff7f0e''],
                  hex_selected = [Num 0], hex_skip = False, hex_last_sel = Undefined\<rparr>,
      map_src = \<lparr>map_bmu_x = [0, 0, 0], map_bmu_y = [1, 0, 1], map_hc_cluster = [1, 0, 1],
                  map_selected = [Num 1], map_skip = False, map_last_sel = Undefined\<rparr>,
      table_selected = [Num 0], bar_c_visible = True, bar_u_visible = False\<rparr>"

text \<open>
  A map of one row and three nodes in the clusters 0, 1 and 1, and two regions, whose
  best-matching units are the first two nodes: no region belongs to node \<open>(0,2)\<close>.
  Nothing is selected.
\<close>

definition sparse_dashboard :: dashboard where
  "sparse_dashboard =
     \<lparr>hex_src = \<lparr>hex_bmu_x = [0, 0, 0], hex_bmu_y = [0, 1, 2], hex_hc_cluster = [0, 1, 1],
                  u_color = [''#440154'', ''#21908C'', ''#FDE724''],
                  color = [''#1f77b4'', ''#ff7f0e'', ''#ff7f0e''],
                  alpha = [1, 1, 1], display_color = [''#1f77b4'', ''#ff7f0e'', ''#ff7f0e''],
                  hex_selected = [], hex_skip = False, hex_last_sel = Undefined\<rparr>,
      map_src = \<lparr>map_bmu_x = [0, 0], map_bmu_y = [0, 1], map_hc_cluster = [0, 1],
                  map_selected = [], map_skip = False, map_last_sel = Undefined\<rparr>,
      table_selected = [], bar_c_visible = True, bar_u_visible = False\<rparr>"

text \<open>
  A map of two rows and two columns, the first row in cluster 0 and the second in
  cluster 1, and five regions: two in cluster 0 and three in cluster 1. Nothing is
  selected.
\<close>

definition grid_dashboard :: dashboard where
  "grid_dashboard =
     \<lparr>hex_src = \<lparr>hex_bmu_x = [0, 0, 1, 1], hex_bmu_y = [0, 1, 0, 1],
                  hex_hc_cluster = [0, 0, 1, 1],
                  u_color = [''#440154'', ''#440154'', ''#FDE724'', ''#FDE724''],
                  color = [''#1f77b4'', ''#1f77b4'', ''#ff7f0e'', ''#ff7f0e''],
                  alpha = [1, 1, 1, 1],
                  display_color = [''#1f77b4'', ''#1f77b4'', ''#ff7f0e'', ''#ff7f0e''],
                  hex_selected = [], hex_skip = False, hex_last_sel = Undefined\<rparr>,
      map_src = \<lparr>map_bmu_x = [0, 0, 1, 1, 1], map_bmu_y = [0, 1, 0, 0, 1],
                  map_hc_cluster = [0, 0, 1, 1, 1],
                  map_selected = [], map_skip = False, map_last_sel = Undefined\<rparr>,
      table_selected = [], bar_c_visible = True, bar_u_visible = False\<rparr>"

section \<open>Properties\<close>

subsection \<open>Frames and comprehensions\<close>

lemma lookup_set_column_same: "lookup (set_column df c s) c = Some s"
  by (induction df) (auto simp: lookup_def)

lemma lookup_set_column_other: "c' \<noteq> c \<Longrightarrow> lookup (set_column df c s) c' = lookup df c'"
  by (induction df) (auto simp: lookup_def)

lemma sequence_Inr_length: "sequence rs = Inr vs \<Longrightarrow> length vs = length rs"
  by (induction rs arbitrary: vs) (auto split: sum.splits)

lemma sequence_Inr_nth: "sequence rs = Inr vs \<Longrightarrow> k < length rs \<Longrightarrow> rs ! k = Inr (vs ! k)"
proof (induction rs arbitrary: vs k)
  case Nil
  then show ?case by simp
next
  case (Cons r rs)
  then show ?case by (cases k) (auto split: sum.splits)
qed

lemma sequence_all_Inr: "(\<forall>r \<in> set rs. \<exists>v. r = Inr v) \<Longrightarrow> \<exists>vs. sequence rs = Inr vs"
  by (induction rs) (auto split: sum.splits)

lemma np_get_Inr: "np_get xs i = Inr v \<longleftrightarrow> i < length xs \<and> v = xs ! i"
  by (auto simp: np_get_def)

subsection \<open>assign\_clusters\<close>

text \<open>
  The reshaped weights hold one vector per node, the vector of node \<open>(i, j)\<close> at the
  row-major position \<open>i * y_dim + j\<close>.
\<close>

lemma flat_index_bound:
  fixes i j X Y :: nat
  assumes "i < X" and "j < Y"
  shows "i * Y + j < X * Y"
proof -
  have "i * Y + j < i * Y + Y" using assms(2) by simp
  also have "\<dots> = Suc i * Y" by simp
  also have "\<dots> \<le> X * Y" using assms(1) by (intro mult_le_mono1) simp
  finally show ?thesis .
qed

lemma flat_weights_Inr:
  assumes "flat_weights m = Inr fw"
  shows "length fw = x_dim m * y_dim m"
    and "idx < x_dim m * y_dim m \<Longrightarrow>
         fw ! idx = take (n_features m) (drop (idx * n_features m) (weights m))"
  using assms by (auto simp: flat_weights_def split: if_splits)

lemma int_column_nonempty: "xs \<noteq> [] \<Longrightarrow> int_column xs = IntCol xs"
  by (simp add: int_column_def)

text \<open>
  C1. Whenever \<open>assign_clusters\<close> returns, the node labels are the clustering of the
  flattened weights, where the vector of node \<open>(i, j)\<close> is the slice of the weight array
  at the row-major position \<open>i * y_dim + j\<close>; every observation row \<open>k\<close> carries the
  coordinates \<open>(bmu_x, bmu_y)\<close> that \<open>som.winner\<close> returns for the feature values of
  row \<open>k\<close> (all columns except \<open>hex_x\<close> and \<open>hex_y\<close>), and its \<open>hc_cluster\<close> is the
  label of the node at flat index \<open>bmu_x * y_dim + bmu_y\<close>.
\<close>

theorem assign_clusters_bmu_label:
  assumes "assign_clusters winner fit_predict m data_df n_clusters = Inr df_out"
  shows "\<exists>fw node_labels bxs bys cl.
      flat_weights m = Inr fw \<and>
      length fw = x_dim m * y_dim m \<and>
      (\<forall>i < x_dim m. \<forall>j < y_dim m.
          fw ! (i * y_dim m + j) =
            take (n_features m) (drop ((i * y_dim m + j) * n_features m) (weights m))) \<and>
      fit_predict n_clusters fw = Inr node_labels \<and>
      lookup df_out ''bmu_x'' = Some (int_column bxs) \<and>
      lookup df_out ''bmu_y'' = Some (int_column bys) \<and>
      lookup df_out ''hc_cluster'' = Some (int_column cl) \<and>
      length bxs = nrows data_df \<and> length bys = nrows data_df \<and> length cl = nrows data_df \<and>
      (0 < nrows data_df \<longrightarrow>
          int_column bxs = IntCol bxs \<and> int_column bys = IntCol bys \<and> int_column cl = IntCol cl) \<and>
      (\<forall>k < nrows data_df.
          0 \<le> bxs ! k \<and> 0 \<le> bys ! k \<and>
          (nat (bxs ! k), nat (bys ! k)) =
             winner m (map (\<lambda>(c, s). cells s ! k)
                         (filter (\<lambda>(c, s). c \<noteq> ''hex_x'' \<and> c \<noteq> ''hex_y'') data_df)) \<and>
          nat (bxs ! k) * y_dim m + nat (bys ! k) < length node_labels \<and>
          cl ! k = node_labels ! (nat (bxs ! k) * y_dim m + nat (bys ! k)))"
proof -
  from assms obtain node_labels where nl: "node_clustering fit_predict m n_clusters = Inr node_labels"
    by (auto simp: assign_clusters_def split: sum.splits)
  then obtain fw where fw: "flat_weights m = Inr fw" and fp: "fit_predict n_clusters fw = Inr node_labels"
    by (auto simp: node_clustering_def split: sum.splits)
  have fwl: "length fw = x_dim m * y_dim m" by (rule flat_weights_Inr(1)[OF fw])
  have fwn: "\<forall>i < x_dim m. \<forall>j < y_dim m.
          fw ! (i * y_dim m + j) =
            take (n_features m) (drop ((i * y_dim m + j) * n_features m) (weights m))"
    using flat_weights_Inr(2)[OF fw] flat_index_bound by blast
  define feats where "feats = filter (\<lambda>(c, s). c \<noteq> ''hex_x'' \<and> c \<noteq> ''hex_y'') data_df"
  define vals where "vals = row_values (nrows data_df) (drop_columns [''hex_x'', ''hex_y''] data_df)"
  define bmus where "bmus = map (winner m) vals"
  define flat_idx where "flat_idx = map (\<lambda>(i, j). i * y_dim m + j) bmus"
  have dc: "drop_columns [''hex_x'', ''hex_y''] data_df = feats"
    by (simp add: drop_columns_def feats_def)
  from assms nl obtain clusters where
    cl: "sequence (map (np_get node_labels) flat_idx) = Inr clusters" and
    out: "df_out = set_column (set_column (set_column data_df ''bmu_x'' (int_column (map int (map fst bmus))))
                        ''bmu_y'' (int_column (map int (map snd bmus)))) ''hc_cluster'' (int_column clusters)"
    by (auto simp: assign_clusters_def Let_def vals_def bmus_def flat_idx_def
        simp del: map_map split: sum.splits)
  define bxs where "bxs = map int (map fst bmus)"
  define bys where "bys = map int (map snd bmus)"
  have lv: "length vals = nrows data_df" by (simp add: vals_def row_values_def)
  have lb: "length bmus = nrows data_df" by (simp add: bmus_def lv)
  have lbx: "length bxs = nrows data_df" and lby: "length bys = nrows data_df"
    by (simp_all add: bxs_def bys_def lb)
  have lc: "length clusters = nrows data_df"
    using sequence_Inr_length[OF cl] by (simp add: flat_idx_def lb)
  have l1: "lookup df_out ''bmu_x'' = Some (int_column bxs)"
    by (simp add: out bxs_def lookup_set_column_other lookup_set_column_same)
  have l2: "lookup df_out ''bmu_y'' = Some (int_column bys)"
    by (simp add: out bys_def lookup_set_column_other lookup_set_column_same)
  have l3: "lookup df_out ''hc_cluster'' = Some (int_column clusters)"
    by (simp add: out lookup_set_column_same)
  have ic: "0 < nrows data_df \<longrightarrow>
      int_column bxs = IntCol bxs \<and> int_column bys = IntCol bys \<and> int_column clusters = IntCol clusters"
    using lbx lby lc by (auto intro!: int_column_nonempty)
  have pt: "\<forall>k < nrows data_df.
          0 \<le> bxs ! k \<and> 0 \<le> bys ! k \<and>
          (nat (bxs ! k), nat (bys ! k)) = winner m (map (\<lambda>(c, s). cells s ! k) feats) \<and>
          nat (bxs ! k) * y_dim m + nat (bys ! k) < length node_labels \<and>
          clusters ! k = node_labels ! (nat (bxs ! k) * y_dim m + nat (bys ! k))"
  proof (intro allI impI)
    fix k assume k: "k < nrows data_df"
    have kb: "k < length bmus" using k lb by simp
    have nn: "0 \<le> bxs ! k \<and> 0 \<le> bys ! k" using kb by (simp add: bxs_def bys_def)
    have a: "(nat (bxs ! k), nat (bys ! k)) = bmus ! k"
      using kb by (simp add: bxs_def bys_def)
    have v: "vals ! k = map (\<lambda>(c, s). cells s ! k) feats"
      using k by (simp add: vals_def row_values_def dc)
    have b: "bmus ! k = winner m (map (\<lambda>(c, s). cells s ! k) feats)"
      using kb lv lb by (simp add: bmus_def v)
    have "map (np_get node_labels) flat_idx ! k = Inr (clusters ! k)"
      using sequence_Inr_nth[OF cl, of k] kb by (simp add: flat_idx_def)
    then have "np_get node_labels (flat_idx ! k) = Inr (clusters ! k)"
      using kb by (simp add: flat_idx_def)
    then have c: "flat_idx ! k < length node_labels \<and> clusters ! k = node_labels ! (flat_idx ! k)"
      by (simp add: np_get_Inr)
    have "flat_idx ! k = fst (bmus ! k) * y_dim m + snd (bmus ! k)"
      using kb by (simp add: flat_idx_def case_prod_beta)
    also have "\<dots> = nat (bxs ! k) * y_dim m + nat (bys ! k)"
      using a by (metis fst_conv snd_conv)
    finally have d: "flat_idx ! k = nat (bxs ! k) * y_dim m + nat (bys ! k)" .
    show "0 \<le> bxs ! k \<and> 0 \<le> bys ! k \<and>
          (nat (bxs ! k), nat (bys ! k)) = winner m (map (\<lambda>(c, s). cells s ! k) feats) \<and>
          nat (bxs ! k) * y_dim m + nat (bys ! k) < length node_labels \<and>
          clusters ! k = node_labels ! (nat (bxs ! k) * y_dim m + nat (bys ! k))"
      using nn a b c unfolding d by simp
  qed
  have pt': "\<forall>k < nrows data_df.
          0 \<le> bxs ! k \<and> 0 \<le> bys ! k \<and>
          (nat (bxs ! k), nat (bys ! k)) =
             winner m (map (\<lambda>(c, s). cells s ! k)
                         (filter (\<lambda>(c, s). c \<noteq> ''hex_x'' \<and> c \<noteq> ''hex_y'') data_df)) \<and>
          nat (bxs ! k) * y_dim m + nat (bys ! k) < length node_labels \<and>
          clusters ! k = node_labels ! (nat (bxs ! k) * y_dim m + nat (bys ! k))"
    using pt unfolding feats_def .
  show ?thesis
    by (rule exI[of _ fw], rule exI[of _ node_labels], rule exI[of _ bxs], rule exI[of _ bys],
        rule exI[of _ clusters], intro conjI)
      (rule fw fwl fwn fp l1 l2 l3 lbx lby lc ic pt')+
qed

text \<open>
  A map of one row and two nodes with the weights 5 and 7, one observation with the
  feature value 1/2 and the grid key 9, and a winner function that answers node (0, 1)
  for the feature vector [1/2] and node (0, 0) otherwise.
\<close>

theorem assign_clusters_bmu_label_witness:
  "assign_clusters (\<lambda>m obs. if obs = [FloatV (1 / 2)] then (0, 1) else (0, 0))
      (\<lambda>n ws. if ws = [[5], [7]] then Inr [3, 4] else Inl ValueError)
      \<lparr>x_dim = 1, y_dim = 2, n_features = 1, weights = [5, 7]\<rparr>
      [(''a'', FloatCol [1 / 2]), (''hex_x'', IntCol [9])] 2
    = Inr [(''a'', FloatCol [1 / 2]), (''hex_x'', IntCol [9]), (''bmu_x'', IntCol [0]),
           (''bmu_y'', IntCol [1]), (''hc_cluster'', IntCol [4])]
   \<and> (\<exists>fw node_labels bxs bys cl.
        flat_weights \<lparr>x_dim = 1, y_dim = 2, n_features = 1, weights = [5, 7]\<rparr> = Inr fw \<and>
        fw ! (0 * 2 + 1) = take 1 (drop ((0 * 2 + 1) * 1) [5, 7]) \<and>
        (if fw = [[5], [7]] then Inr [3, 4] else Inl ValueError) = Inr node_labels \<and>
        lookup [(''a'', FloatCol [1 / 2]), (''hex_x'', IntCol [9]), (''bmu_x'', IntCol [0]),
           (''bmu_y'', IntCol [1]), (''hc_cluster'', IntCol [4])] ''hc_cluster'' = Some (IntCol cl) \<and>
        lookup [(''a'', FloatCol [1 / 2]), (''hex_x'', IntCol [9]), (''bmu_x'', IntCol [0]),
           (''bmu_y'', IntCol [1]), (''hc_cluster'', IntCol [4])] ''bmu_x'' = Some (IntCol bxs) \<and>
        lookup [(''a'', FloatCol [1 / 2]), (''hex_x'', IntCol [9]), (''bmu_x'', IntCol [0]),
           (''bmu_y'', IntCol [1]), (''hc_cluster'', IntCol [4])] ''bmu_y'' = Some (IntCol bys) \<and>
        (nat (bxs ! 0), nat (bys ! 0)) = (0, 1) \<and>
        cl ! 0 = node_labels ! (nat (bxs ! 0) * 2 + nat (bys ! 0)))"
proof -
  let ?w = "\<lambda>(m::som) obs. if obs = [FloatV (1 / 2)] then (0::nat, 1::nat) else (0, 0)"
  let ?f = "\<lambda>(n::int) (ws::real list list). if ws = [[5], [7]] then Inr [3, 4::int] else Inl ValueError"
  let ?m = "\<lparr>x_dim = 1, y_dim = 2, n_features = 1, weights = [5, 7]\<rparr>"
  let ?df = "[(''a'', FloatCol [1 / 2]), (''hex_x'', IntCol [9])]"
  let ?out = "[(''a'', FloatCol [1 / 2]), (''hex_x'', IntCol [9]), (''bmu_x'', IntCol [0]),
           (''bmu_y'', IntCol [1]), (''hc_cluster'', IntCol [4])]"
  have e: "assign_clusters ?w ?f ?m ?df 2 = Inr ?out"
    by (simp add: assign_clusters_def node_clustering_def flat_weights_def drop_columns_def
        row_values_def nrows_def np_get_def int_column_def Let_def upt_conv_Cons)
  have n: "nrows ?df = 1" by (simp add: nrows_def)
  have x: "x_dim ?m = 1" "y_dim ?m = 2" "n_features ?m = 1" "weights ?m = [5, 7]" by simp_all
  have r: "map (\<lambda>(c, s). cells s ! 0) (filter (\<lambda>(c, s). c \<noteq> ''hex_x'' \<and> c \<noteq> ''hex_y'') ?df)
            = [FloatV (1 / 2)]" by simp
  from assign_clusters_bmu_label[OF e]
  obtain fw node_labels bxs bys cl where
    h: "flat_weights ?m = Inr fw"
      "\<forall>i < x_dim ?m. \<forall>j < y_dim ?m.
          fw ! (i * y_dim ?m + j) =
            take (n_features ?m) (drop ((i * y_dim ?m + j) * n_features ?m) (weights ?m))"
      "?f 2 fw = Inr node_labels"
      "lookup ?out ''bmu_x'' = Some (int_column bxs)"
      "lookup ?out ''bmu_y'' = Some (int_column bys)"
      "lookup ?out ''hc_cluster'' = Some (int_column cl)"
      "0 < nrows ?df \<longrightarrow>
          int_column bxs = IntCol bxs \<and> int_column bys = IntCol bys \<and> int_column cl = IntCol cl"
      "\<forall>k < nrows ?df.
          0 \<le> bxs ! k \<and> 0 \<le> bys ! k \<and>
          (nat (bxs ! k), nat (bys ! k)) =
             ?w ?m (map (\<lambda>(c, s). cells s ! k)
                         (filter (\<lambda>(c, s). c \<noteq> ''hex_x'' \<and> c \<noteq> ''hex_y'') ?df)) \<and>
          nat (bxs ! k) * y_dim ?m + nat (bys ! k) < length node_labels \<and>
          cl ! k = node_labels ! (nat (bxs ! k) * y_dim ?m + nat (bys ! k))"
    by (elim exE conjE) (rule that, assumption+)
  have ic: "int_column bxs = IntCol bxs" "int_column bys = IntCol bys" "int_column cl = IntCol cl"
    using h(7) n by simp_all
  have q1: "lookup ?out ''hc_cluster'' = Some (IntCol cl)" using h(6) unfolding ic(3) .
  have q2: "lookup ?out ''bmu_x'' = Some (IntCol bxs)" using h(4) unfolding ic(1) .
  have q3: "lookup ?out ''bmu_y'' = Some (IntCol bys)" using h(5) unfolding ic(2) .
  have f1: "fw ! (0 * 2 + 1) = take 1 (drop ((0 * 2 + 1) * 1) [5, 7])"
    using h(2)[rule_format, of 0 1] unfolding x by simp
  have k0: "(nat (bxs ! 0), nat (bys ! 0)) = (0, 1) \<and>
        cl ! 0 = node_labels ! (nat (bxs ! 0) * 2 + nat (bys ! 0))"
    using h(8)[rule_format, of 0] unfolding n x r by simp
  have k1: "(nat (bxs ! 0), nat (bys ! 0)) = (0, 1)" using k0 by (rule conjunct1)
  have k2: "cl ! 0 = node_labels ! (nat (bxs ! 0) * 2 + nat (bys ! 0))" using k0 by (rule conjunct2)
  have ex: "\<exists>fw node_labels bxs bys cl.
        flat_weights ?m = Inr fw \<and>
        fw ! (0 * 2 + 1) = take 1 (drop ((0 * 2 + 1) * 1) [5, 7]) \<and>
        (if fw = [[5], [7]] then Inr [3, 4] else Inl ValueError) = Inr node_labels \<and>
        lookup ?out ''hc_cluster'' = Some (IntCol cl) \<and>
        lookup ?out ''bmu_x'' = Some (IntCol bxs) \<and>
        lookup ?out ''bmu_y'' = Some (IntCol bys) \<and>
        (nat (bxs ! 0), nat (bys ! 0)) = (0, 1) \<and>
        cl ! 0 = node_labels ! (nat (bxs ! 0) * 2 + nat (bys ! 0))"
    by (rule exI[of _ fw], rule exI[of _ node_labels], rule exI[of _ bxs], rule exI[of _ bys],
        rule exI[of _ cl], intro conjI)
      (rule h(1) f1 h(3) q1 q2 q3 k1 k2)+
  from e ex show ?thesis by (rule conjI)
qed

lemma assign_clusters_returns:
  assumes "node_clustering fit_predict m n_clusters = Inr node_labels"
    and "\<And>obs. fst (winner m obs) * y_dim m + snd (winner m obs) < length node_labels"
  shows "\<exists>df_out. assign_clusters winner fit_predict m data_df n_clusters = Inr df_out"
proof -
  define flat_idx where "flat_idx = map (\<lambda>(i, j). i * y_dim m + j)
     (map (winner m) (row_values (nrows data_df) (drop_columns [''hex_x'', ''hex_y''] data_df)))"
  have "\<forall>r \<in> set (map (np_get node_labels) flat_idx). \<exists>v. r = Inr v"
    using assms(2) by (auto simp: flat_idx_def np_get_def case_prod_beta)
  then obtain cl where "sequence (map (np_get node_labels) flat_idx) = Inr cl"
    using sequence_all_Inr by blast
  then show ?thesis
    using assms(1) by (simp add: assign_clusters_def Let_def flat_idx_def del: map_map)
qed

subsection \<open>compute\_cluster\_means\<close>

text \<open>
  The rows of one group by their positions: the mean of a group is the sum of the
  column over the rows with that key, divided by their number; the group keys are the
  distinct keys in ascending order.
\<close>

lemma zip_conv_nth: "length vs = length ks \<Longrightarrow> zip ks vs = map (\<lambda>i. (ks ! i, vs ! i)) [0..<length ks]"
  by (rule nth_equalityI) simp_all

lemma group_values_nth:
  assumes "length vs = length ks"
  shows "group_values ks vs k = map ((!) vs) (filter (\<lambda>i. ks ! i = k) [0..<length ks])"
  unfolding group_values_def zip_conv_nth[OF assms]
  by (simp add: filter_map comp_def)

lemma sum_list_filter_upt:
  "sum_list (map f (filter P [0..<n])) = (\<Sum>i | i < n \<and> P i. f i)"
proof -
  have "sum_list (map f (filter P [0..<n])) = sum f (set (filter P [0..<n]))"
    by (rule sum_list_distinct_conv_sum_set) simp
  also have "set (filter P [0..<n]) = {i. i < n \<and> P i}" by auto
  finally show ?thesis .
qed

lemma length_filter_upt: "length (filter P [0..<n]) = card {i. i < n \<and> P i}"
proof -
  have "length (filter P [0..<n]) = card (set (filter P [0..<n]))"
    by (rule distinct_card[symmetric]) simp
  also have "set (filter P [0..<n]) = {i. i < n \<and> P i}" by auto
  finally show ?thesis .
qed

lemma mean_group_values:
  assumes "length vs = length ks"
  shows "mean (group_values ks vs k) =
           (\<Sum>i | i < length ks \<and> ks ! i = k. vs ! i) / real (card {i. i < length ks \<and> ks ! i = k})"
  by (simp add: mean_def group_values_nth[OF assms] sum_list_filter_upt length_filter_upt)

lemma group_keys_conv: "group_keys ks = sorted_list_of_set (set ks)"
  by (simp add: group_keys_def sorted_list_of_set_sort_remdups)

lemma map_sorted_list_of_set:
  fixes r :: "'k::linorder \<Rightarrow> real"
  assumes "strict_mono r" and "finite A"
  shows "map r (sorted_list_of_set A) = sorted_list_of_set (r ` A)"
proof (rule sorted_distinct_set_unique)
  have inj: "inj r" using assms(1) by (rule strict_mono_imp_inj_on)
  show "sorted (map r (sorted_list_of_set A))"
    using assms(1) by (simp add: sorted_map strict_mono_less_eq)
  show "distinct (map r (sorted_list_of_set A))"
    using inj by (simp add: distinct_map inj_on_def)
  show "sorted (sorted_list_of_set (r ` A))" by simp
  show "distinct (sorted_list_of_set (r ` A))" by simp
  show "set (map r (sorted_list_of_set A)) = set (sorted_list_of_set (r ` A))"
    using assms(2) by simp
qed

lemma map_of_map_key: "map_of (map (\<lambda>c. (c, f c)) names) c = (if c \<in> set names then Some (f c) else None)"
  by (induction names) auto

lemma select_columns_distinct:
  assumes "set names \<subseteq> fst ` set df"
  shows "select_columns names df = map (\<lambda>c. (c, the (map_of df c))) names"
proof -
  have "(case lookup df c of None \<Rightarrow> [] | Some s \<Rightarrow> [(c, s)]) = [(c, the (map_of df c))]"
    if "c \<in> set names" for c
  proof -
    from that assms have "c \<in> fst ` set df" by auto
    then obtain s where "map_of df c = Some s"
      by (metis map_of_eq_None_iff not_Some_eq)
    then show ?thesis by (simp add: lookup_def)
  qed
  then have "map (\<lambda>c. case lookup df c of None \<Rightarrow> [] | Some s \<Rightarrow> [(c, s)]) names
      = map (\<lambda>c. [(c, the (map_of df c))]) names"
    by (intro map_cong) auto
  then have "select_columns names df = concat (map (\<lambda>c. [(c, the (map_of df c))]) names)"
    unfolding select_columns_def by (rule arg_cong)
  then show ?thesis by simp
qed

text \<open>
  Under distinct column names the averaged columns are the numeric columns without the
  bookkeeping columns, each with the means of its groups.
\<close>

lemma numeric_names_iff:
  assumes "distinct (map fst df)" and "(c, s) \<in> set df"
  shows "c \<in> set (filter (\<lambda>c. c \<notin> set bookkeeping) (columns (select_number df)))
           \<longleftrightarrow> is_number s \<and> c \<notin> set bookkeeping"
proof -
  have e: "c \<in> set (filter (\<lambda>c. c \<notin> set bookkeeping) (columns (select_number df)))
        \<longleftrightarrow> c \<notin> set bookkeeping \<and> (\<exists>s'. (c, s') \<in> set df \<and> is_number s')"
    by (force simp: columns_def select_number_def)
  have "(\<exists>s'. (c, s') \<in> set df \<and> is_number s') \<longleftrightarrow> is_number s"
  proof
    assume "\<exists>s'. (c, s') \<in> set df \<and> is_number s'"
    then obtain s' where s': "(c, s') \<in> set df" "is_number s'" by blast
    have "s' = s" by (rule eq_key_imp_eq_value[OF assms(1) s'(1) assms(2)])
    with s'(2) show "is_number s" by simp
  next
    assume "is_number s"
    with assms(2) show "\<exists>s'. (c, s') \<in> set df \<and> is_number s'" by blast
  qed
  with e show ?thesis by blast
qed

lemma numeric_names_subset:
  "set (filter (\<lambda>c. c \<notin> set bookkeeping) (columns (select_number df))) \<subseteq> fst ` set df"
  by (auto simp: columns_def select_number_def)

lemma groupby_mean_selected:
  fixes ks :: "'k::linorder list"
  assumes "names = filter (\<lambda>c. c \<notin> set bookkeeping) (columns (select_number df))"
  shows "groupby_mean ks (select_columns names df) =
           map (\<lambda>c. (c, FloatCol (map (\<lambda>k. mean (group_values ks (as_real (the (map_of df c))) k))
                                    (group_keys ks)))) names"
  unfolding assms select_columns_distinct[OF numeric_names_subset]
  by (simp add: groupby_mean_def)

lemma cluster_means_core:
  fixes ks :: "'k::linorder list" and r :: "'k \<Rightarrow> real"
  assumes sm: "strict_mono r"
    and wf: "wf_frame hex_df"
    and n: "length ks = nrows hex_df"
    and names: "names = filter (\<lambda>c. c \<notin> set bookkeeping) (columns (select_number hex_df))"
    and out: "out = (''hc_cluster'', kout) # groupby_mean ks (select_columns names hex_df)"
    and ko: "as_real kout = map r (group_keys ks)"
  shows "columns out = ''hc_cluster'' # names"
    and "lookup out ''hc_cluster'' = Some kout"
    and "as_real kout = sorted_list_of_set (set (map r ks))"
    and "(c, s) \<in> set hex_df \<Longrightarrow> is_number s \<Longrightarrow> c \<notin> set bookkeeping \<Longrightarrow>
         \<exists>ms. lookup out c = Some (FloatCol ms) \<and> length ms = length (as_real kout) \<and>
           (\<forall>g < length (as_real kout).
              ms ! g = (\<Sum>i | i < nrows hex_df \<and> map r ks ! i = as_real kout ! g. as_real s ! i)
                       / real (card {i. i < nrows hex_df \<and> map r ks ! i = as_real kout ! g}))"
proof -
  have d: "distinct (map fst hex_df)" using wf by (simp add: wf_frame_def columns_def)
  note gm = groupby_mean_selected[OF names, of ks]
  show "columns out = ''hc_cluster'' # names"
    by (simp add: out gm columns_def comp_def)
  show "lookup out ''hc_cluster'' = Some kout" by (simp add: out lookup_def)
  show "as_real kout = sorted_list_of_set (set (map r ks))"
    by (simp add: ko group_keys_conv map_sorted_list_of_set[OF sm])
  assume mem: "(c, s) \<in> set hex_df" and num: "is_number s" and nb: "c \<notin> set bookkeeping"
  have cn: "c \<in> set names" unfolding names using numeric_names_iff[OF d mem] num nb by simp
  have ms: "map_of hex_df c = Some s" using d mem by simp
  have ne: "c \<noteq> ''hc_cluster''" using nb by (auto simp: bookkeeping_def)
  define ms where "ms = map (\<lambda>k. mean (group_values ks (as_real s) k)) (group_keys ks)"
  have l: "lookup out c = Some (FloatCol ms)"
    using ne cn by (simp add: out gm lookup_def map_of_map_key ms ms_def)
  have len: "length ms = length (as_real kout)" by (simp add: ms_def ko)
  have ls: "length (as_real s) = length ks"
  proof -
    have "series_len s = nrows hex_df" using wf mem by (auto simp: wf_frame_def list_all_iff)
    then show ?thesis using num n by (cases s) simp_all
  qed
  have inj: "r a = r b \<longleftrightarrow> a = b" for a b
    using strict_mono_imp_inj_on[OF sm] by (auto simp: inj_on_def)
  have pt: "ms ! g = (\<Sum>i | i < nrows hex_df \<and> map r ks ! i = as_real kout ! g. as_real s ! i)
                       / real (card {i. i < nrows hex_df \<and> map r ks ! i = as_real kout ! g})"
    if g: "g < length (as_real kout)" for g
  proof -
    have gk: "g < length (group_keys ks)" using g by (simp add: ko)
    have e: "{i. i < nrows hex_df \<and> map r ks ! i = as_real kout ! g}
           = {i. i < length ks \<and> ks ! i = group_keys ks ! g}"
      using gk by (auto simp: n[symmetric] ko inj)
    have "ms ! g = mean (group_values ks (as_real s) (group_keys ks ! g))"
      using gk by (simp add: ms_def)
    also have "\<dots> = (\<Sum>i | i < length ks \<and> ks ! i = group_keys ks ! g. as_real s ! i)
                   / real (card {i. i < length ks \<and> ks ! i = group_keys ks ! g})"
      by (rule mean_group_values[OF ls])
    finally show ?thesis unfolding e .
  qed
  from l len pt show "\<exists>ms. lookup out c = Some (FloatCol ms) \<and> length ms = length (as_real kout) \<and>
           (\<forall>g < length (as_real kout).
              ms ! g = (\<Sum>i | i < nrows hex_df \<and> map r ks ! i = as_real kout ! g. as_real s ! i)
                       / real (card {i. i < nrows hex_df \<and> map r ks ! i = as_real kout ! g}))"
    by blast
qed

lemma strict_mono_real_of_int: "strict_mono (real_of_int)"
  by (simp add: strict_mono_def)

lemma strict_mono_ident: "strict_mono (\<lambda>x::real. x)"
  by (simp add: strict_mono_def)

lemma wf_frame_lookup_length:
  assumes "wf_frame df" and "lookup df c = Some s"
  shows "series_len s = nrows df"
proof -
  have "(c, s) \<in> set df" using assms(2) by (auto simp: lookup_def dest: map_of_SomeD)
  then show ?thesis using assms(1) by (auto simp: wf_frame_def list_all_iff)
qed

text \<open>
  C4. For a well-formed table with a numeric \<open>hc_cluster\<close> column, \<open>compute_cluster_means\<close>
  returns a table whose first column \<open>hc_cluster\<close> holds the distinct cluster ids of the
  observations in ascending order, one row each, followed by the numeric columns of the
  input other than \<open>hc_cluster\<close>, \<open>bmu_x\<close>, \<open>bmu_y\<close>, \<open>hex_x\<close> and \<open>hex_y\<close>, in their
  order; row \<open>g\<close> of such a column is the sum of the column over exactly the
  observations whose cluster id is the id of row \<open>g\<close>, divided by their number.
\<close>

theorem compute_cluster_means_spec:
  assumes wf: "wf_frame hex_df"
    and kc: "lookup hex_df ''hc_cluster'' = Some kcol"
    and num: "is_number kcol"
  shows "\<exists>out kout.
      compute_cluster_means hex_df = Inr out \<and>
      columns out = ''hc_cluster'' #
         filter (\<lambda>c. c \<notin> {''hc_cluster'', ''bmu_x'', ''bmu_y'', ''hex_x'', ''hex_y''})
           (map fst (filter (\<lambda>(c, s). is_number s) hex_df)) \<and>
      lookup out ''hc_cluster'' = Some kout \<and>
      as_real kout = sorted_list_of_set (set (as_real kcol)) \<and>
      (\<forall>c s. (c, s) \<in> set hex_df \<and> is_number s \<and>
             c \<notin> {''hc_cluster'', ''bmu_x'', ''bmu_y'', ''hex_x'', ''hex_y''} \<longrightarrow>
         (\<exists>ms. lookup out c = Some (FloatCol ms) \<and> length ms = length (as_real kout) \<and>
            (\<forall>g < length (as_real kout).
               ms ! g = (\<Sum>i | i < nrows hex_df \<and> as_real kcol ! i = as_real kout ! g. as_real s ! i)
                        / real (card {i. i < nrows hex_df \<and> as_real kcol ! i = as_real kout ! g}))))"
proof -
  define names where "names = filter (\<lambda>c. c \<notin> set bookkeeping) (columns (select_number hex_df))"
  have nm: "filter (\<lambda>c. c \<notin> set bookkeeping)
           (map fst (filter (\<lambda>(c, s). is_number s) hex_df)) = names"
    by (simp add: names_def columns_def select_number_def)
  have bk: "c \<notin> {''hc_cluster'', ''bmu_x'', ''bmu_y'', ''hex_x'', ''hex_y''} \<longleftrightarrow> c \<notin> set bookkeeping"
    for c by (simp add: bookkeeping_def)
  have core: "\<exists>out kout.
      compute_cluster_means hex_df = Inr out \<and>
      columns out = ''hc_cluster'' # names \<and>
      lookup out ''hc_cluster'' = Some kout \<and>
      as_real kout = sorted_list_of_set (set (as_real kcol)) \<and>
      (\<forall>c s. (c, s) \<in> set hex_df \<and> is_number s \<and> c \<notin> set bookkeeping \<longrightarrow>
         (\<exists>ms. lookup out c = Some (FloatCol ms) \<and> length ms = length (as_real kout) \<and>
            (\<forall>g < length (as_real kout).
               ms ! g = (\<Sum>i | i < nrows hex_df \<and> as_real kcol ! i = as_real kout ! g. as_real s ! i)
                        / real (card {i. i < nrows hex_df \<and> as_real kcol ! i = as_real kout ! g}))))"
  proof (cases kcol)
    case (IntCol ks)
    define out where
      "out = (''hc_cluster'', IntCol (group_keys ks)) # groupby_mean ks (select_columns names hex_df)"
    have r: "compute_cluster_means hex_df = Inr out"
      using kc by (simp add: compute_cluster_means_def Let_def IntCol out_def names_def)
    have n: "length ks = nrows hex_df" using wf_frame_lookup_length[OF wf kc] IntCol by simp
    have ko: "as_real (IntCol (group_keys ks)) = map real_of_int (group_keys ks)" by simp
    note c = cluster_means_core[OF strict_mono_real_of_int wf n names_def out_def ko]
    have ar: "as_real kcol = map real_of_int ks" by (simp add: IntCol)
    show ?thesis
      apply (rule exI[of _ out], rule exI[of _ "IntCol (group_keys ks)"])
      unfolding ar
      using r c by blast
  next
    case (FloatCol ks)
    define out where
      "out = (''hc_cluster'', FloatCol (group_keys ks)) # groupby_mean ks (select_columns names hex_df)"
    have r: "compute_cluster_means hex_df = Inr out"
      using kc by (simp add: compute_cluster_means_def Let_def FloatCol out_def names_def)
    have n: "length ks = nrows hex_df" using wf_frame_lookup_length[OF wf kc] FloatCol by simp
    have ko: "as_real (FloatCol (group_keys ks)) = map (\<lambda>x. x) (group_keys ks)" by simp
    note c = cluster_means_core[OF strict_mono_ident wf n names_def out_def ko, unfolded list.map_ident]
    have ar: "as_real kcol = ks" by (simp add: FloatCol)
    show ?thesis
      apply (rule exI[of _ out], rule exI[of _ "FloatCol (group_keys ks)"])
      unfolding ar
      using r c by blast
  next
    case (ObjCol ks)
    with num show ?thesis by simp
  qed
  show ?thesis using core unfolding bk nm .
qed

theorem compute_cluster_means_spec_witness:
  "compute_cluster_means
     [(''a'', FloatCol [1, 2, 3, 5]), (''hc_cluster'', IntCol [1, 0, 1, 0]), (''bmu_x'', IntCol [0, 0, 0, 0])]
     = Inr [(''hc_cluster'', IntCol [0, 1]), (''a'', FloatCol [7 / 2, 2])] \<and>
   (\<exists>out kout ms.
      compute_cluster_means
        [(''a'', FloatCol [1, 2, 3, 5]), (''hc_cluster'', IntCol [1, 0, 1, 0]), (''bmu_x'', IntCol [0, 0, 0, 0])]
        = Inr out \<and>
      columns out = [''hc_cluster'', ''a''] \<and>
      lookup out ''hc_cluster'' = Some kout \<and>
      as_real kout = [0, 1] \<and>
      lookup out ''a'' = Some (FloatCol ms) \<and> length ms = 2 \<and>
      ms ! 0 = (\<Sum>i | i < 4 \<and> [1, 0, 1, 0] ! i = (0::real). [1, 2, 3, 5] ! i)
                 / real (card {i. i < 4 \<and> [1, 0, 1, 0] ! i = (0::real)}))"
proof -
  let ?h = "[(''a'', FloatCol [1, 2, 3, 5]), (''hc_cluster'', IntCol [1, 0, 1, 0]),
             (''bmu_x'', IntCol [0, 0, 0, 0])]"
  have e: "compute_cluster_means ?h = Inr [(''hc_cluster'', IntCol [0, 1]), (''a'', FloatCol [7 / 2, 2])]"
    by (simp add: compute_cluster_means_def Let_def lookup_def columns_def select_number_def
        bookkeeping_def select_columns_def groupby_mean_def group_keys_def group_values_def mean_def)
  have w: "wf_frame ?h" by (simp add: wf_frame_def columns_def nrows_def)
  have k: "lookup ?h ''hc_cluster'' = Some (IntCol [1, 0, 1, 0])" by (simp add: lookup_def)
  have i: "is_number (IntCol [1, 0, 1, 0])" by simp
  have n: "nrows ?h = 4" by (simp add: nrows_def)
  have cols: "''hc_cluster'' #
         filter (\<lambda>c. c \<notin> {''hc_cluster'', ''bmu_x'', ''bmu_y'', ''hex_x'', ''hex_y''})
           (map fst (filter (\<lambda>(c, s). is_number s) ?h)) = [''hc_cluster'', ''a'']" by simp
  have ks: "sorted_list_of_set (set (as_real (IntCol [1, 0, 1, 0]))) = [0, 1]"
  proof -
    have "as_real (IntCol [1, 0, 1, 0]) = [1, 0, 1, 0]" by simp
    then have "sorted_list_of_set (set (as_real (IntCol [1, 0, 1, 0]))) = sort (remdups [1, 0, 1, 0::real])"
      by (simp only: sorted_list_of_set_sort_remdups)
    also have "\<dots> = [0, 1]" by simp
    finally show ?thesis .
  qed
  have m: "(''a'', FloatCol [1, 2, 3, 5]) \<in> set ?h \<and> is_number (FloatCol [1, 2, 3, 5]) \<and>
           ''a'' \<notin> {''hc_cluster'', ''bmu_x'', ''bmu_y'', ''hex_x'', ''hex_y''}" by simp
  from compute_cluster_means_spec[OF w k i] obtain out kout where
    o: "compute_cluster_means ?h = Inr out"
      "columns out = ''hc_cluster'' #
         filter (\<lambda>c. c \<notin> {''hc_cluster'', ''bmu_x'', ''bmu_y'', ''hex_x'', ''hex_y''})
           (map fst (filter (\<lambda>(c, s). is_number s) ?h))"
      "lookup out ''hc_cluster'' = Some kout"
      "as_real kout = sorted_list_of_set (set (as_real (IntCol [1, 0, 1, 0])))"
      "\<forall>c s. (c, s) \<in> set ?h \<and> is_number s \<and>
             c \<notin> {''hc_cluster'', ''bmu_x'', ''bmu_y'', ''hex_x'', ''hex_y''} \<longrightarrow>
         (\<exists>ms. lookup out c = Some (FloatCol ms) \<and> length ms = length (as_real kout) \<and>
            (\<forall>g < length (as_real kout).
               ms ! g = (\<Sum>i | i < nrows ?h \<and> as_real (IntCol [1, 0, 1, 0]) ! i = as_real kout ! g. as_real s ! i)
                        / real (card {i. i < nrows ?h \<and> as_real (IntCol [1, 0, 1, 0]) ! i = as_real kout ! g})))"
    by (elim exE conjE) (rule that, assumption+)
  have ko: "as_real kout = [0, 1]" using o(4) unfolding ks .
  from o(5)[rule_format, OF m] obtain ms where
    ms: "lookup out ''a'' = Some (FloatCol ms)" "length ms = length (as_real kout)"
      "\<forall>g < length (as_real kout).
               ms ! g = (\<Sum>i | i < nrows ?h \<and> as_real (IntCol [1, 0, 1, 0]) ! i = as_real kout ! g.
                            as_real (FloatCol [1, 2, 3, 5]) ! i)
                        / real (card {i. i < nrows ?h \<and> as_real (IntCol [1, 0, 1, 0]) ! i = as_real kout ! g})"
    by (elim exE conjE) (rule that, assumption+)
  have l2: "length ms = 2" using ms(2) unfolding ko by simp
  have m0: "ms ! 0 = (\<Sum>i | i < 4 \<and> [1, 0, 1, 0] ! i = (0::real). [1, 2, 3, 5] ! i)
                 / real (card {i. i < 4 \<and> [1, 0, 1, 0] ! i = (0::real)})"
    using ms(3)[rule_format, of 0] unfolding ko n by simp
  have c2: "columns out = [''hc_cluster'', ''a'']" using o(2) unfolding cols .
  have ex: "\<exists>out kout ms.
      compute_cluster_means ?h = Inr out \<and>
      columns out = [''hc_cluster'', ''a''] \<and>
      lookup out ''hc_cluster'' = Some kout \<and>
      as_real kout = [0, 1] \<and>
      lookup out ''a'' = Some (FloatCol ms) \<and> length ms = 2 \<and>
      ms ! 0 = (\<Sum>i | i < 4 \<and> [1, 0, 1, 0] ! i = (0::real). [1, 2, 3, 5] ! i)
                 / real (card {i. i < 4 \<and> [1, 0, 1, 0] ! i = (0::real)})"
    by (rule exI[of _ out], rule exI[of _ kout], rule exI[of _ ms], intro conjI)
       (rule o(1) c2 o(3) ko ms(1) l2 m0)+
  from e ex show ?thesis by (rule conjI)
qed

subsection \<open>Delivery of the change events\<close>

text \<open>
  The two unfoldings of the dispatcher. In a settled state every handler run leaves the
  selections and the data as they are and notifies nobody, so any pending notifications
  run out.
\<close>

lemma already_iff: "(length ts = Suc 0 \<and> ts ! 0 = v) \<longleftrightarrow> ts = [v]"
  by (cases ts) auto

lemma dispatch_Nil [code]: "dispatch [] s = Some s"
  by (subst dispatch.simps) simp

lemma dispatch_Cons [code]:
  "dispatch (e # rest) s = (case on_event e s of (s', es) \<Rightarrow> dispatch (rest @ es) s')"
  by (subst dispatch.simps) simp

lemma notified_same: "selections s' = selections s \<Longrightarrow> notified ws s s' = []"
  by (auto simp: notified_def selections_def filter_empty_conv split: event.splits)

lemma hex_selected_change_stable:
  assumes "stable s"
  shows "selections (hex_selected_change s) = selections s"
    and "source_data (hex_selected_change s) = source_data s"
  using assms
  by (auto simp: stable_def selections_def source_data_def hex_selected_change_def Let_def)

lemma map_selected_change_stable:
  assumes "stable s"
  shows "selections (map_selected_change s) = selections s"
    and "source_data (map_selected_change s) = source_data s"
  using assms
  by (auto simp: stable_def selections_def source_data_def map_selected_change_def Let_def)

lemma on_event_stable:
  assumes "stable s"
  shows "\<exists>s'. on_event e s = (s', []) \<and> selections s' = selections s \<and>
              source_data s' = source_data s"
proof (cases e)
  case HexIndices
  then show ?thesis
    using hex_selected_change_stable[OF assms]
    by (simp add: on_event_def Let_def notified_same)
next
  case MapIndices
  then show ?thesis
    using map_selected_change_stable[OF assms]
    by (simp add: on_event_def Let_def notified_same)
qed

lemma stable_cong: "selections s' = selections s \<Longrightarrow> stable s' = stable s"
  by (simp add: stable_def)

lemma dispatch_stable:
  "stable s \<Longrightarrow> \<exists>s'. dispatch pending s = Some s' \<and> selections s' = selections s \<and>
                        source_data s' = source_data s"
proof (induction pending arbitrary: s)
  case Nil
  then show ?case by (simp add: dispatch_Nil)
next
  case (Cons e rest)
  from on_event_stable[OF Cons.prems, of e] obtain s1 where
    s1: "on_event e s = (s1, [])" "selections s1 = selections s" "source_data s1 = source_data s"
    by blast
  have "stable s1" using Cons.prems stable_cong[OF s1(2)] by simp
  from Cons.IH[OF this] obtain s' where
    "dispatch rest s1 = Some s'" "selections s' = selections s1" "source_data s' = source_data s1"
    by blast
  then show ?case using s1 by (simp add: dispatch_Cons)
qed

subsection \<open>Cluster buttons\<close>

text \<open>
  The body of the click handler, and a whole click when the body leaves a settled state:
  after a toggle-off, and after selecting a cluster of at least two nodes and at least
  two regions.
\<close>

lemma click_already:
  "table_selected s = [Num cl] \<Longrightarrow> selections (cluster_button_click cl s) = ([], [], [])"
  by (simp add: cluster_button_click_def selections_def Let_def)

lemma click_select:
  "table_selected s \<noteq> [Num cl] \<Longrightarrow>
   selections (cluster_button_click cl s) =
     (map (\<lambda>j. Num (int j))
        (filter (\<lambda>j. hex_hc_cluster (hex_src s) ! j = cl) [0..<length (hex_hc_cluster (hex_src s))]),
      map (\<lambda>j. Num (int j))
        (filter (\<lambda>j. map_hc_cluster (map_src s) ! j = cl) [0..<length (map_hc_cluster (map_src s))]),
      [Num cl])"
  using already_iff[of "table_selected s" "Num cl"]
  by (auto simp: cluster_button_click_def selections_def indices_where_def Let_def)

lemma click_data: "source_data (cluster_button_click cl s) = source_data s"
  by (simp add: cluster_button_click_def source_data_def Let_def)

lemma button_click_already:
  assumes "table_selected s = [Num cl]"
  shows "\<exists>s'. button_click cl s = Some s' \<and> selections s' = ([], [], []) \<and>
              source_data s' = source_data s"
proof -
  let ?s1 = "cluster_button_click cl s"
  have e: "selections ?s1 = ([], [], [])" by (rule click_already[OF assms])
  then have "stable ?s1" by (simp add: stable_def)
  from dispatch_stable[OF this, of "notified [HexIndices, MapIndices] s ?s1"]
  show ?thesis by (simp add: button_click_def Let_def e click_data)
qed

lemma button_click_select:
  assumes "table_selected s \<noteq> [Num cl]"
    and "selections (cluster_button_click cl s) = (hs, ms, ts)"
    and "2 \<le> length hs" and "2 \<le> length ms"
  shows "\<exists>s'. button_click cl s = Some s' \<and> selections s' = (hs, ms, ts) \<and>
              source_data s' = source_data s"
proof -
  let ?s1 = "cluster_button_click cl s"
  have "stable ?s1" using assms(2,3,4) by (auto simp: stable_def)
  from dispatch_stable[OF this, of "notified [HexIndices, MapIndices] s ?s1"]
  show ?thesis by (simp add: button_click_def Let_def assms(2) click_data)
qed

text \<open>
  C5 (as amended). A click on cluster button \<open>cl\<close>, with the handlers it notifies. If the
  table's selection is exactly the row \<open>cl\<close>, the click ends with all three selections
  empty. If it is not, and cluster \<open>cl\<close> has at least two nodes and at least two
  regions, the click ends with the hex view selecting exactly the nodes of cluster
  \<open>cl\<close>, the map exactly the regions of cluster \<open>cl\<close>, both in ascending order, and the
  table the single row \<open>cl\<close>. For such a cluster two clicks in succession end with all
  three selections empty when the table's selection was not the row \<open>cl\<close> beforehand,
  and with cluster \<open>cl\<close> selected when it was. Nothing is said about selecting a
  cluster of fewer than two nodes or fewer than two regions.
\<close>

theorem button_click_toggle:
  "let hex_inds = map (\<lambda>j. Num (int j))
         (filter (\<lambda>j. hex_hc_cluster (hex_src s) ! j = cl) [0..<length (hex_hc_cluster (hex_src s))]);
       map_inds = map (\<lambda>j. Num (int j))
         (filter (\<lambda>j. map_hc_cluster (map_src s) ! j = cl) [0..<length (map_hc_cluster (map_src s))])
   in (table_selected s = [Num cl] \<longrightarrow>
        (\<exists>s'. button_click cl s = Some s' \<and> selections s' = ([], [], []) \<and>
           (2 \<le> length hex_inds \<and> 2 \<le> length map_inds \<longrightarrow>
              (\<exists>s''. button_click cl s' = Some s'' \<and> selections s'' = (hex_inds, map_inds, [Num cl])))))
    \<and> (table_selected s \<noteq> [Num cl] \<and> 2 \<le> length hex_inds \<and> 2 \<le> length map_inds \<longrightarrow>
        (\<exists>s'. button_click cl s = Some s' \<and> selections s' = (hex_inds, map_inds, [Num cl]) \<and>
           (\<exists>s''. button_click cl s' = Some s'' \<and> selections s'' = ([], [], []))))"
proof -
  define hex_inds where "hex_inds = map (\<lambda>j. Num (int j))
         (filter (\<lambda>j. hex_hc_cluster (hex_src s) ! j = cl) [0..<length (hex_hc_cluster (hex_src s))])"
  define map_inds where "map_inds = map (\<lambda>j. Num (int j))
         (filter (\<lambda>j. map_hc_cluster (map_src s) ! j = cl) [0..<length (map_hc_cluster (map_src s))])"
  have sel: "selections (cluster_button_click cl t) = (hex_inds, map_inds, [Num cl])"
    if "table_selected t \<noteq> [Num cl]" and "source_data t = source_data s" for t
    using click_select[OF that(1)] that(2) by (simp add: hex_inds_def map_inds_def source_data_def)
  have a: "\<exists>s'. button_click cl s = Some s' \<and> selections s' = ([], [], []) \<and>
           (2 \<le> length hex_inds \<and> 2 \<le> length map_inds \<longrightarrow>
              (\<exists>s''. button_click cl s' = Some s'' \<and> selections s'' = (hex_inds, map_inds, [Num cl])))"
    if t: "table_selected s = [Num cl]"
  proof -
    from button_click_already[OF t] obtain s' where
      s': "button_click cl s = Some s'" "selections s' = ([], [], [])" "source_data s' = source_data s"
      by blast
    have nt: "table_selected s' \<noteq> [Num cl]" using s'(2) by (simp add: selections_def)
    have "\<exists>s''. button_click cl s' = Some s'' \<and> selections s'' = (hex_inds, map_inds, [Num cl])"
      if "2 \<le> length hex_inds \<and> 2 \<le> length map_inds"
      using button_click_select[OF nt sel[OF nt s'(3)]] that by blast
    with s' show ?thesis by blast
  qed
  have b: "\<exists>s'. button_click cl s = Some s' \<and> selections s' = (hex_inds, map_inds, [Num cl]) \<and>
           (\<exists>s''. button_click cl s' = Some s'' \<and> selections s'' = ([], [], []))"
    if t: "table_selected s \<noteq> [Num cl] \<and> 2 \<le> length hex_inds \<and> 2 \<le> length map_inds"
  proof -
    from t have nt: "table_selected s \<noteq> [Num cl]" by simp
    from button_click_select[OF nt sel[OF nt refl]] t obtain s' where
      s': "button_click cl s = Some s'" "selections s' = (hex_inds, map_inds, [Num cl])"
      by blast
    have "table_selected s' = [Num cl]" using s'(2) by (simp add: selections_def)
    from button_click_already[OF this] s' show ?thesis by blast
  qed
  from a b show ?thesis
    unfolding Let_def hex_inds_def map_inds_def by blast
qed

theorem button_click_toggle_witness:
  "table_selected grid_dashboard = [] \<and>
   (\<exists>s'. button_click 0 grid_dashboard = Some s' \<and>
         selections s' = ([Num 0, Num 1], [Num 0, Num 1], [Num 0]) \<and>
         (\<exists>s''. button_click 0 s' = Some s'' \<and> selections s'' = ([], [], []))) \<and>
   (\<exists>s'. button_click 0 (grid_dashboard\<lparr>table_selected := [Num 0]\<rparr>) = Some s' \<and>
         selections s' = ([], [], []) \<and>
         (\<exists>s''. button_click 0 s' = Some s'' \<and>
                selections s'' = ([Num 0, Num 1], [Num 0, Num 1], [Num 0])))"
proof -
  let ?g = "grid_dashboard\<lparr>table_selected := [Num 0]\<rparr>"
  have t0: "table_selected grid_dashboard = []" by (simp add: grid_dashboard_def)
  have n0: "table_selected grid_dashboard \<noteq> [Num 0]" by (simp add: grid_dashboard_def)
  have t1: "table_selected ?g = [Num 0]" by simp
  have hi: "map (\<lambda>j. Num (int j))
         (filter (\<lambda>j. hex_hc_cluster (hex_src grid_dashboard) ! j = 0)
            [0..<length (hex_hc_cluster (hex_src grid_dashboard))]) = [Num 0, Num 1]"
    by code_simp
  have mi: "map (\<lambda>j. Num (int j))
         (filter (\<lambda>j. map_hc_cluster (map_src grid_dashboard) ! j = 0)
            [0..<length (map_hc_cluster (map_src grid_dashboard))]) = [Num 0, Num 1]"
    by code_simp
  have hs: "hex_src ?g = hex_src grid_dashboard" "map_src ?g = map_src grid_dashboard" by simp_all
  have l2: "2 \<le> length [Num 0, Num 1]" by simp
  from button_click_toggle[of grid_dashboard 0, unfolded Let_def hi mi] n0 l2
  have a: "\<exists>s'. button_click 0 grid_dashboard = Some s' \<and>
         selections s' = ([Num 0, Num 1], [Num 0, Num 1], [Num 0]) \<and>
         (\<exists>s''. button_click 0 s' = Some s'' \<and> selections s'' = ([], [], []))"
    by blast
  from button_click_toggle[of ?g 0, unfolded Let_def hs hi mi] t1 l2
  have b: "\<exists>s'. button_click 0 ?g = Some s' \<and>
         selections s' = ([], [], []) \<and>
         (\<exists>s''. button_click 0 s' = Some s'' \<and>
                selections s'' = ([Num 0, Num 1], [Num 0, Num 1], [Num 0]))"
    by blast
  from t0 a b show ?thesis by blast
qed


text \<open>
  With cluster 0 selected beforehand, two clicks on button 0 clear the selection and
  select cluster 0 again: the selections are not empty afterwards. And with nothing
  selected, a click on the button of cluster 1, which has the two nodes 1 and 2 and the
  single region 1, ends with node 1 alone selected in the hex view: the map handler,
  notified of the single region, selects the region's node, and the hex handler then
  keeps it.
\<close>

theorem button_click_counterexample:
  "table_selected demo_dashboard = [Num 0] \<and>
   map_option selections (Option.bind (button_click 0 demo_dashboard) (button_click 0))
     = Some ([Num 0], [Num 1], [Num 0]) \<and>
   table_selected sparse_dashboard = [] \<and>
   hex_hc_cluster (hex_src sparse_dashboard) = [0, 1, 1] \<and>
   map_option selections (button_click 1 sparse_dashboard) = Some ([Num 1], [Num 1], [Num 1])"
  by code_simp

subsection \<open>Selection handlers\<close>

text \<open>The body of the hex handler with the skip flag not set.\<close>

lemma hex_single_again:
  assumes "\<not> hex_skip (hex_src s)" "hex_selected (hex_src s) = [v]" "hex_last_sel (hex_src s) = v"
  shows "selections (hex_selected_change s) = ([], [], [])"
    and "hex_skip (hex_src (hex_selected_change s))"
    and "hex_last_sel (hex_src (hex_selected_change s)) = Null"
  using assms by (simp_all add: hex_selected_change_def selections_def Let_def)

lemma hex_empty:
  assumes "\<not> hex_skip (hex_src s)" "hex_selected (hex_src s) = []"
  shows "selections (hex_selected_change s) = ([], [], [])"
  using assms by (simp_all add: hex_selected_change_def selections_def Let_def)

lemma hex_single_new:
  assumes "\<not> hex_skip (hex_src s)" "hex_selected (hex_src s) = [Num idx]"
    "hex_last_sel (hex_src s) \<noteq> Num idx"
    "0 \<le> idx" "idx < int (length (hex_bmu_x (hex_src s)))"
    "idx < int (length (hex_bmu_y (hex_src s)))" "idx < int (length (hex_hc_cluster (hex_src s)))"
    "length (map_bmu_y (map_src s)) = length (map_bmu_x (map_src s))"
  shows "selections (hex_selected_change s) =
           ([Num idx],
            map (\<lambda>i. Num (int i))
              (filter (\<lambda>i. map_bmu_x (map_src s) ! i = hex_bmu_x (hex_src s) ! nat idx \<and>
                          map_bmu_y (map_src s) ! i = hex_bmu_y (hex_src s) ! nat idx)
                 [0..<length (map_bmu_x (map_src s))]),
            [Num (hex_hc_cluster (hex_src s) ! nat idx)])"
proof -
  have eq: "filter (\<lambda>i. Num (map_bmu_x (map_src s) ! i) = Num (hex_bmu_x (hex_src s) ! nat idx) \<and>
               js_index (map_bmu_y (map_src s)) (Num (int i)) = Num (hex_bmu_y (hex_src s) ! nat idx))
          [0..<length (map_bmu_x (map_src s))]
      = filter (\<lambda>i. map_bmu_x (map_src s) ! i = hex_bmu_x (hex_src s) ! nat idx \<and>
                               map_bmu_y (map_src s) ! i = hex_bmu_y (hex_src s) ! nat idx)
          [0..<length (map_bmu_x (map_src s))]"
    using assms(8) by (intro filter_cong) auto
  show ?thesis
    using assms eq by (simp add: hex_selected_change_def selections_def Let_def indices_where_def)
qed

lemma map_selected_change_multi:
  "1 < length (map_selected (map_src s)) \<Longrightarrow> selections (map_selected_change s) = selections s"
  by (auto simp: map_selected_change_def selections_def Let_def)

lemma dispatch_hex_event:
  "dispatch [HexIndices] s =
     dispatch (notified [HexIndices, MapIndices] s (hex_selected_change s)) (hex_selected_change s)"
  by (simp add: dispatch_Cons on_event_def Let_def)

lemma dispatch_map_event:
  "dispatch [MapIndices] s =
     dispatch (notified [MapIndices, HexIndices] s (map_selected_change s)) (map_selected_change s)"
  by (simp add: dispatch_Cons on_event_def Let_def)

text \<open>
  A change event of the hex selection, with the handlers it notifies in turn. A second
  tap on the last selected node, and an emptied selection, end with all three selections
  empty. A tap on a new node with at least two regions ends with the node, its regions
  and its cluster row selected: the map handler takes no action on several regions.
\<close>

lemma hex_event_toggle_off:
  assumes "\<not> hex_skip (hex_src s)" "hex_selected (hex_src s) = [v]" "hex_last_sel (hex_src s) = v"
  shows "\<exists>s'. dispatch [HexIndices] s = Some s' \<and> selections s' = ([], [], [])"
proof -
  have e: "selections (hex_selected_change s) = ([], [], [])" by (rule hex_single_again(1)[OF assms])
  then have "stable (hex_selected_change s)" by (simp add: stable_def)
  from dispatch_stable[OF this, of "notified [HexIndices, MapIndices] s (hex_selected_change s)"]
  show ?thesis by (auto simp: dispatch_hex_event e)
qed

lemma hex_event_empty:
  assumes "\<not> hex_skip (hex_src s)" "hex_selected (hex_src s) = []"
  shows "\<exists>s'. dispatch [HexIndices] s = Some s' \<and> selections s' = ([], [], [])"
proof -
  have e: "selections (hex_selected_change s) = ([], [], [])" by (rule hex_empty[OF assms])
  then have "stable (hex_selected_change s)" by (simp add: stable_def)
  from dispatch_stable[OF this, of "notified [HexIndices, MapIndices] s (hex_selected_change s)"]
  show ?thesis by (auto simp: dispatch_hex_event e)
qed

lemma hex_event_propagate:
  assumes "\<not> hex_skip (hex_src s)" "hex_selected (hex_src s) = [Num idx]"
    "hex_last_sel (hex_src s) \<noteq> Num idx"
    "0 \<le> idx" "idx < int (length (hex_bmu_x (hex_src s)))"
    "idx < int (length (hex_bmu_y (hex_src s)))" "idx < int (length (hex_hc_cluster (hex_src s)))"
    "length (map_bmu_y (map_src s)) = length (map_bmu_x (map_src s))"
    and r: "region_inds = map (\<lambda>i. Num (int i))
              (filter (\<lambda>i. map_bmu_x (map_src s) ! i = hex_bmu_x (hex_src s) ! nat idx \<and>
                          map_bmu_y (map_src s) ! i = hex_bmu_y (hex_src s) ! nat idx)
                 [0..<length (map_bmu_x (map_src s))])"
    and two: "2 \<le> length region_inds"
  shows "\<exists>s'. dispatch [HexIndices] s = Some s' \<and>
           selections s' = ([Num idx], region_inds, [Num (hex_hc_cluster (hex_src s) ! nat idx)])"
proof -
  let ?s1 = "hex_selected_change s"
  have e: "selections ?s1 = ([Num idx], region_inds, [Num (hex_hc_cluster (hex_src s) ! nat idx)])"
    using hex_single_new[OF assms(1-8)] r by simp
  have h: "hex_selected (hex_src ?s1) = hex_selected (hex_src s)"
    using e assms(2) by (simp add: selections_def)
  have m: "1 < length (map_selected (map_src ?s1))" using e two by (simp add: selections_def)
  have n: "notified [HexIndices, MapIndices] s ?s1 = [] \<or>
           notified [HexIndices, MapIndices] s ?s1 = [MapIndices]"
    using h by (simp add: notified_def)
  have q: "dispatch [MapIndices] ?s1 = Some (map_selected_change ?s1)"
    by (simp add: dispatch_map_event notified_same[OF map_selected_change_multi[OF m]] dispatch_Nil)
  from n show ?thesis
  proof
    assume "notified [HexIndices, MapIndices] s ?s1 = []"
    then show ?thesis by (simp add: dispatch_hex_event dispatch_Nil e)
  next
    assume "notified [HexIndices, MapIndices] s ?s1 = [MapIndices]"
    then show ?thesis
      by (simp add: dispatch_hex_event q map_selected_change_multi[OF m] e)
  qed
qed

text \<open>
  C6. On the three-node map, a tap on node 0 selects the node, its region and its cluster
  row. A following tap on node 2, which differs from the last selected node and to which
  no region belongs: the body of the hex handler selects no region and the cluster row 1
  of node 2, as the claim says; but its assignment of the empty map selection notifies
  the map handler, which on an empty selection clears the hex and table selections. The
  dashboard ends with all three selections empty and the row of node 2 not selected.
\<close>

theorem hex_tap_node_without_region:
  "map_option selections (hex_tap [Num 0] sparse_dashboard) = Some ([Num 0], [Num 0], [Num 0]) \<and>
   map_option selections
     (map_option (\<lambda>s. hex_selected_change (s\<lparr>hex_src := (hex_src s)\<lparr>hex_selected := [Num 2]\<rparr>\<rparr>))
        (hex_tap [Num 0] sparse_dashboard)) = Some ([Num 2], [], [Num 1]) \<and>
   map_option selections (Option.bind (hex_tap [Num 0] sparse_dashboard) (hex_tap [Num 2]))
     = Some ([], [], [])"
  by code_simp

subsection \<open>U-Matrix toggle\<close>

text \<open>
  C7. One run of the toggle handler sets \<open>display_color\<close> to the \<open>u_color\<close> array when
  activating and to the \<open>color\<close> array when deactivating, shows exactly one of the two
  legends, and leaves the precomputed colours and every selection untouched. Toggling
  on and then off therefore ends with \<open>display_color\<close> equal to the cluster colours.
\<close>

theorem toggle_change_spec:
  "display_color (hex_src (toggle_change True s)) = u_color (hex_src s)
   \<and> display_color (hex_src (toggle_change False s)) = color (hex_src s)
   \<and> bar_c_visible (toggle_change active s) = (\<not> active)
   \<and> bar_u_visible (toggle_change active s) = active
   \<and> selections (toggle_change active s) = selections s
   \<and> u_color (hex_src (toggle_change active s)) = u_color (hex_src s)
   \<and> color (hex_src (toggle_change active s)) = color (hex_src s)
   \<and> display_color (hex_src (toggle_change False (toggle_change True s))) = color (hex_src s)
   \<and> selections (toggle_change False (toggle_change True s)) = selections s
   \<and> bar_c_visible (toggle_change False (toggle_change True s))
   \<and> \<not> bar_u_visible (toggle_change False (toggle_change True s))"
  by (simp add: toggle_change_def selections_def Let_def)

text \<open>
  The node source starts with \<open>display_color\<close> equal to \<open>color\<close>, so the round trip
  restores the original values.
\<close>

lemma build_hex_plot_display_color:
  "build_hex_plot fit_predict category10 viridis256 hex_df m um_flat = Inr src \<Longrightarrow>
   display_color src = color src"
  by (auto simp: build_hex_plot_def Let_def split: sum.splits)

text \<open>
  C8. A selection-change event of the hex view or of the map view with more than one
  index selected leaves the selections of all three views as they are.
\<close>

theorem multi_select_no_action:
  "(1 < length (hex_selected (hex_src s)) \<longrightarrow> selections (hex_selected_change s) = selections s)
   \<and> (1 < length (map_selected (map_src s)) \<longrightarrow> selections (map_selected_change s) = selections s)"
  by (auto simp: hex_selected_change_def map_selected_change_def selections_def Let_def)

theorem multi_select_no_action_witness:
  "1 < length (hex_selected (hex_src
         (demo_dashboard\<lparr>hex_src := (hex_src demo_dashboard)\<lparr>hex_selected := [Num 0, Num 1]\<rparr>\<rparr>))) \<and>
   selections (hex_selected_change
         (demo_dashboard\<lparr>hex_src := (hex_src demo_dashboard)\<lparr>hex_selected := [Num 0, Num 1]\<rparr>\<rparr>))
     = selections (demo_dashboard\<lparr>hex_src := (hex_src demo_dashboard)\<lparr>hex_selected := [Num 0, Num 1]\<rparr>\<rparr>) \<and>
   1 < length (map_selected (map_src (cluster_button_click 1 demo_dashboard))) \<and>
   selections (map_selected_change (cluster_button_click 1 demo_dashboard))
     = selections (cluster_button_click 1 demo_dashboard)"
proof -
  have a: "1 < length (hex_selected (hex_src
         (demo_dashboard\<lparr>hex_src := (hex_src demo_dashboard)\<lparr>hex_selected := [Num 0, Num 1]\<rparr>\<rparr>)))"
    by simp
  have b: "1 < length (map_selected (map_src (cluster_button_click 1 demo_dashboard)))"
    by code_simp
  from a b
    multi_select_no_action[of "demo_dashboard\<lparr>hex_src := (hex_src demo_dashboard)\<lparr>hex_selected := [Num 0, Num 1]\<rparr>\<rparr>"]
    multi_select_no_action[of "cluster_button_click 1 demo_dashboard"]
  show ?thesis by blast
qed

subsection \<open>scale\_data\<close>



lemma scaler_scale_positive: "0 < scaler_scale xs"
proof -
  have "0 \<le> sum_list (map (\<lambda>x. (x - mean xs)\<^sup>2) xs)"
    by (rule sum_list_nonneg) auto
  then have "0 \<le> mean (map (\<lambda>x. (x - mean xs)\<^sup>2) xs)"
    unfolding mean_def[of "map (\<lambda>x. (x - mean xs)\<^sup>2) xs"] by (intro divide_nonneg_nonneg) simp_all
  then have "0 \<le> sqrt (mean (map (\<lambda>x. (x - mean xs)\<^sup>2) xs))" by simp
  then show ?thesis by (auto simp: scaler_scale_def Let_def)
qed



text \<open>
  The standardized table is the scaled columns under their names, with the grid keys
  written over them or appended.
\<close>

lemma lookup_carry_coord_other:
  "c \<noteq> coord \<Longrightarrow> lookup (carry_coord gdf coord df) c = lookup df c"
  by (simp add: carry_coord_def lookup_set_column_other split: option.splits)

lemma lookup_carry_coord_same:
  "lookup gdf coord = Some col \<Longrightarrow> lookup (carry_coord gdf coord df) coord = Some col"
  by (simp add: carry_coord_def lookup_set_column_same)

lemma zip_map_same: "zip (map f xs) (map g xs) = map (\<lambda>x. (f x, g x)) xs"
  by (induction xs) auto

lemma scaled_columns_iff:
  "(c, col) \<in> set (scaled_columns gdf excl) \<longleftrightarrow>
     (c, col) \<in> set gdf \<and> is_number col \<and> \<not> (c \<in> set excl \<and> c \<in> fst ` {p \<in> set gdf. is_number (snd p)})"
  by (auto simp: scaled_columns_def drop_columns_def select_number_def columns_def case_prod_beta)

lemma scaled_columns_member:
  "(c, col) \<in> set gdf \<Longrightarrow> is_number col \<Longrightarrow> c \<notin> set excl \<Longrightarrow>
   (c, col) \<in> set (scaled_columns gdf excl)"
  by (simp add: scaled_columns_iff)


lemma wf_frame_length:
  assumes "wf_frame gdf" and "(c, col) \<in> set gdf" and "is_number col"
  shows "length (as_real col) = nrows gdf"
proof -
  have "series_len col = nrows gdf"
    using assms(1,2) by (auto simp: wf_frame_def list_all_iff)
  then show ?thesis using assms(3) by (cases col) simp_all
qed

lemma scale_data_unfold:
  "scale_data gdf ex =
     (let numeric = scaled_columns gdf (case ex of None \<Rightarrow> [] | Some cs \<Rightarrow> cs)
      in case fit_transform (map (\<lambda>(c, s). as_real s) numeric) of Inl e \<Rightarrow> Inl e
         | Inr scaled_arr \<Rightarrow>
             Inr (carry_coord gdf ''hex_y''
                    (carry_coord gdf ''hex_x'' (zip (columns numeric) (map FloatCol scaled_arr))),
                  gdf))"
  by (simp add: scale_data_def scaled_columns_def Let_def split: sum.splits)

lemma scale_data_returns:
  assumes wf: "wf_frame gdf" and rows: "0 < nrows gdf"
    and mem: "(c, col) \<in> set gdf" "is_number col" "c \<notin> set (case ex of None \<Rightarrow> [] | Some cs \<Rightarrow> cs)"
  shows "scale_data gdf ex =
           Inr (carry_coord gdf ''hex_y''
                  (carry_coord gdf ''hex_x''
                     (map (\<lambda>(c, s). (c, FloatCol (standard_scale (as_real s))))
                        (scaled_columns gdf (case ex of None \<Rightarrow> [] | Some cs \<Rightarrow> cs)))),
                gdf)"
proof -
  define numeric where "numeric = scaled_columns gdf (case ex of None \<Rightarrow> [] | Some cs \<Rightarrow> cs)"
  have ne: "numeric \<noteq> []"
    using scaled_columns_member[OF mem] unfolding numeric_def by auto
  have "\<not> list_ex (\<lambda>col. col = []) (map (\<lambda>(c, s). as_real s) numeric)"
  proof
    assume "list_ex (\<lambda>col. col = []) (map (\<lambda>(c, s). as_real s) numeric)"
    then obtain c' s' where m: "(c', s') \<in> set numeric" and e: "as_real s' = []"
      by (auto simp: list_ex_iff)
    from m have "(c', s') \<in> set gdf" "is_number s'"
      by (simp_all add: numeric_def scaled_columns_iff)
    from wf_frame_length[OF wf this] e rows show False by simp
  qed
  then have ft: "fit_transform (map (\<lambda>(c, s). as_real s) numeric) =
      Inr (map standard_scale (map (\<lambda>(c, s). as_real s) numeric))"
    using ne by (simp add: fit_transform_def)
  have z: "zip (columns numeric) (map FloatCol (map standard_scale (map (\<lambda>(c, s). as_real s) numeric)))
      = map (\<lambda>(c, s). (c, FloatCol (standard_scale (as_real s)))) numeric"
    by (simp add: columns_def zip_map_same case_prod_beta)
  show ?thesis
    unfolding scale_data_unfold numeric_def[symmetric] Let_def ft by (simp add: z del: map_map)
qed


lemma scale_data_Inr:
  assumes "scale_data gdf ex = Inr (scaled_df, geo_df)"
  shows "geo_df = gdf"
    and "\<exists>df. scaled_df = carry_coord gdf ''hex_y'' (carry_coord gdf ''hex_x'' df)"
  using assms by (auto simp: scale_data_unfold Let_def split: sum.splits)

lemma scale_data_Inl: "scale_data gdf ex = Inl e \<Longrightarrow> e = ValueError"
  by (auto simp: scale_data_unfold fit_transform_def Let_def split: sum.splits if_splits)

text \<open>
  C9. For a well-formed table, whenever \<open>scale_data\<close> returns, the second component is
  the input table itself, and a column \<open>hex_x\<close> or \<open>hex_y\<close> of the input is in the
  standardized table with its original values. It returns for every table with at least
  one row and at least one numeric column that is not excluded; otherwise the scaler
  rejects the empty array with a \<open>ValueError\<close>.
\<close>

theorem scale_data_frame_effect:
  assumes "wf_frame gdf"
  shows "(\<forall>scaled_df geo_df. scale_data gdf ex = Inr (scaled_df, geo_df) \<longrightarrow>
       geo_df = gdf \<and>
       (\<forall>col. lookup gdf ''hex_x'' = Some col \<longrightarrow> lookup scaled_df ''hex_x'' = Some col) \<and>
       (\<forall>col. lookup gdf ''hex_y'' = Some col \<longrightarrow> lookup scaled_df ''hex_y'' = Some col))
   \<and> (0 < nrows gdf \<and>
        (\<exists>c col. (c, col) \<in> set gdf \<and> is_number col \<and>
                  c \<notin> set (case ex of None \<Rightarrow> [] | Some cs \<Rightarrow> cs)) \<longrightarrow>
        (\<exists>scaled_df. scale_data gdf ex = Inr (scaled_df, gdf)))
   \<and> (\<forall>e. scale_data gdf ex = Inl e \<longrightarrow> e = ValueError)"
proof (intro conjI allI impI)
  fix scaled_df geo_df
  assume r: "scale_data gdf ex = Inr (scaled_df, geo_df)"
  show "geo_df = gdf" by (rule scale_data_Inr(1)[OF r])
  from scale_data_Inr(2)[OF r] obtain df where
    df: "scaled_df = carry_coord gdf ''hex_y'' (carry_coord gdf ''hex_x'' df)" by blast
  { fix col assume "lookup gdf ''hex_x'' = Some col"
    then show "lookup scaled_df ''hex_x'' = Some col"
      by (simp add: df lookup_carry_coord_other lookup_carry_coord_same) }
  { fix col assume "lookup gdf ''hex_y'' = Some col"
    then show "lookup scaled_df ''hex_y'' = Some col"
      by (simp add: df lookup_carry_coord_same) }
next
  assume "0 < nrows gdf \<and>
        (\<exists>c col. (c, col) \<in> set gdf \<and> is_number col \<and>
                  c \<notin> set (case ex of None \<Rightarrow> [] | Some cs \<Rightarrow> cs))"
  then obtain c col where "0 < nrows gdf" "(c, col) \<in> set gdf" "is_number col"
      "c \<notin> set (case ex of None \<Rightarrow> [] | Some cs \<Rightarrow> cs)" by blast
  from scale_data_returns[OF assms this]
  show "\<exists>scaled_df. scale_data gdf ex = Inr (scaled_df, gdf)" by blast
next
  fix e assume "scale_data gdf ex = Inl e"
  then show "e = ValueError" by (rule scale_data_Inl)
qed


theorem scale_data_frame_effect_witness:
  "wf_frame [(''geometry'', ObjCol [''A'', ''B'']), (''pop'', FloatCol [1, 3]),
             (''hex_x'', IntCol [4, 5]), (''hex_y'', IntCol [7, 7])] \<and>
   (\<exists>scaled_df.
      scale_data [(''geometry'', ObjCol [''A'', ''B'']), (''pop'', FloatCol [1, 3]),
                  (''hex_x'', IntCol [4, 5]), (''hex_y'', IntCol [7, 7])] None
        = Inr (scaled_df, [(''geometry'', ObjCol [''A'', ''B'']), (''pop'', FloatCol [1, 3]),
                           (''hex_x'', IntCol [4, 5]), (''hex_y'', IntCol [7, 7])]) \<and>
      lookup scaled_df ''hex_x'' = Some (IntCol [4, 5]) \<and>
      lookup scaled_df ''hex_y'' = Some (IntCol [7, 7]))"
proof -
  let ?g = "[(''geometry'', ObjCol [''A'', ''B'']), (''pop'', FloatCol [1, 3]),
             (''hex_x'', IntCol [4, 5]), (''hex_y'', IntCol [7, 7])]"
  have w: "wf_frame ?g" by (simp add: wf_frame_def columns_def nrows_def)
  have n: "0 < nrows ?g" by (simp add: nrows_def)
  have m: "\<exists>c col. (c, col) \<in> set ?g \<and> is_number col \<and>
             c \<notin> set (case None of None \<Rightarrow> [] | Some cs \<Rightarrow> cs)"
    by (rule exI[of _ "''pop''"], rule exI[of _ "FloatCol [1, 3]"]) simp
  have x: "lookup ?g ''hex_x'' = Some (IntCol [4, 5])" by (simp add: lookup_def)
  have y: "lookup ?g ''hex_y'' = Some (IntCol [7, 7])" by (simp add: lookup_def)
  note t = scale_data_frame_effect[OF w, of None]
  from t[THEN conjunct2, THEN conjunct1, rule_format, OF conjI[OF n m]]
  obtain scaled_df where r: "scale_data ?g None = Inr (scaled_df, ?g)" ..
  note u = t[THEN conjunct1, rule_format, OF r]
  have rx: "lookup scaled_df ''hex_x'' = Some (IntCol [4, 5])"
    by (rule u[THEN conjunct2, THEN conjunct1, rule_format, OF x])
  have ry: "lookup scaled_df ''hex_y'' = Some (IntCol [7, 7])"
    by (rule u[THEN conjunct2, THEN conjunct2, rule_format, OF y])
  have "scale_data ?g None = Inr (scaled_df, ?g) \<and>
      lookup scaled_df ''hex_x'' = Some (IntCol [4, 5]) \<and>
      lookup scaled_df ''hex_y'' = Some (IntCol [7, 7])"
    using r rx ry by (intro conjI)
  then have "\<exists>scaled_df. scale_data ?g None = Inr (scaled_df, ?g) \<and>
      lookup scaled_df ''hex_x'' = Some (IntCol [4, 5]) \<and>
      lookup scaled_df ''hex_y'' = Some (IntCol [7, 7])" by (rule exI[of _ scaled_df])
  with w show ?thesis by (rule conjI)
qed



subsection \<open>Palette index of the U-Matrix colours\<close>

text \<open>
  The minimum and maximum of the flattened U-Matrix bound each of its entries, so the
  scaled value lies between 0 and 255 and so does its truncation.
\<close>

lemma np_min_Inr:
  assumes "np_min xs = Inr m"
  shows "m \<in> set xs" and "\<And>d. d \<in> set xs \<Longrightarrow> m \<le> d"
proof -
  from assms obtain x rest where xs: "xs = x # rest" and m: "m = fold min rest x"
    by (auto simp: np_min_def split: list.splits)
  have e: "m = Min (set xs)" by (simp only: xs m Min.set_eq_fold)
  show "m \<in> set xs" unfolding e by (rule Min_in) (simp_all add: xs)
  show "\<And>d. d \<in> set xs \<Longrightarrow> m \<le> d" unfolding e by (rule Min_le) simp_all
qed

lemma np_max_Inr:
  assumes "np_max xs = Inr m"
  shows "m \<in> set xs" and "\<And>d. d \<in> set xs \<Longrightarrow> d \<le> m"
proof -
  from assms obtain x rest where xs: "xs = x # rest" and m: "m = fold max rest x"
    by (auto simp: np_max_def split: list.splits)
  have e: "m = Max (set xs)" by (simp only: xs m Max.set_eq_fold)
  show "m \<in> set xs" unfolding e by (rule Max_in) (simp_all add: xs)
  show "\<And>d. d \<in> set xs \<Longrightarrow> d \<le> m" unfolding e by (rule Max_ge) simp_all
qed

lemma norm_index_range:
  assumes "um_min < um_max" "um_min \<le> d" "d \<le> um_max"
  shows "\<exists>n. norm_index um_min um_max d = Inr n \<and> 0 \<le> n \<and> n \<le> 255"
proof -
  define r where "r = (d - um_min) / (um_max - um_min) * 255"
  have pos: "0 < um_max - um_min" using assms by simp
  have r0: "0 \<le> r" unfolding r_def using assms pos by simp
  have q: "(d - um_min) / (um_max - um_min) \<le> 1" using assms pos by simp
  have "(d - um_min) / (um_max - um_min) * 255 \<le> 1 * 255"
    by (rule mult_right_mono[OF q]) simp
  then have r1: "r \<le> 255" unfolding r_def by (simp only: mult_1)
  have n: "norm_index um_min um_max d = Inr \<lfloor>r\<rfloor>"
    using pos r0 by (simp add: norm_index_def py_int_def r_def)
  have "0 \<le> \<lfloor>r\<rfloor>" using r0 by simp
  moreover have "\<lfloor>r\<rfloor> \<le> 255" using r1 by (simp add: floor_le_iff)
  ultimately show ?thesis using n by blast
qed

lemma py_get_in_bounds: "0 \<le> n \<Longrightarrow> n < int (length xs) \<Longrightarrow> py_get xs n = Inr (xs ! nat n)"
  by (simp add: py_get_def)

lemma product_upt_first:
  assumes "0 < X" "0 < Y"
  shows "\<exists>rest. List.product [0..<X] [0..<Y] = (0, 0) # rest"
proof -
  have x: "[0..<X] = 0 # [Suc 0..<X]" using assms(1) by (simp add: upt_conv_Cons)
  have y: "[0..<Y] = 0 # [Suc 0..<Y]" using assms(2) by (simp add: upt_conv_Cons)
  show ?thesis by (subst x, subst y) simp
qed

lemma node_clustering_dims:
  assumes "node_clustering fit_predict m n = Inr labels"
  shows "0 < x_dim m" and "0 < y_dim m"
  using assms by (auto simp: node_clustering_def flat_weights_def split: sum.splits if_splits)

lemma build_hex_plot_constant_umatrix:
  assumes hn: "hex_n_clusters hex_df = Inr n"
    and nc: "node_clustering fit_predict m n = Inr labels"
    and mn: "np_min um_flat = Inr v" and mx: "np_max um_flat = Inr v"
  shows "build_hex_plot fit_predict category10 viridis256 hex_df m um_flat = Inl ValueError"
proof -
  obtain rest where p: "List.product [0..<x_dim m] [0..<y_dim m] = (0, 0) # rest"
    using product_upt_first[OF node_clustering_dims[OF nc]] by blast
  from mn obtain d ds where um: "um_flat = d # ds"
    by (auto simp: np_min_def split: list.splits)
  have r: "node_record viridis256 pal labels um_flat v v (y_dim m) (0, 0) = Inl ValueError" for pal
    by (simp add: node_record_def Let_def np_get_def um norm_index_def)
  show ?thesis
    using hn nc mn mx by (simp add: build_hex_plot_def Let_def p r)
qed

text \<open>
  C10. Let \<open>um_min\<close> and \<open>um_max\<close> be the minimum and maximum of the flattened
  U-Matrix. If \<open>um_min < um_max\<close>, the palette index
  \<open>int((d - um_min) / (um_max - um_min) * 255)\<close> of every entry \<open>d\<close> is computed without
  error and lies in \<open>[0, 255]\<close>, so reading a palette of 256 entries at it is in bounds.
  If \<open>um_min = um_max\<close>, the expression has a zero denominator for every \<open>d\<close>: it
  has no value, and \<open>build_hex_plot\<close> raises once the clustering has succeeded.
\<close>

theorem build_hex_plot_palette_index:
  assumes "np_min um_flat = Inr um_min" and "np_max um_flat = Inr um_max"
  shows "(um_min < um_max \<longrightarrow>
           (\<forall>idx < length um_flat. \<exists>n.
              norm_index um_min um_max (um_flat ! idx) = Inr n \<and> 0 \<le> n \<and> n \<le> 255 \<and>
              (length viridis = 256 \<longrightarrow> py_get viridis n = Inr (viridis ! nat n))))
       \<and> (um_min = um_max \<longrightarrow>
           (\<forall>d. norm_index um_min um_max d = Inl ValueError) \<and>
           (\<forall>n labels. hex_n_clusters hex_df = Inr n \<and>
                node_clustering fit_predict m n = Inr labels \<longrightarrow>
              build_hex_plot fit_predict palette viridis hex_df m um_flat = Inl ValueError))"
proof (intro conjI impI allI)
  fix idx
  assume lt: "um_min < um_max" and idx: "idx < length um_flat"
  have d: "um_flat ! idx \<in> set um_flat" using idx by simp
  from norm_index_range[OF lt np_min_Inr(2)[OF assms(1) d] np_max_Inr(2)[OF assms(2) d]]
  obtain n where n: "norm_index um_min um_max (um_flat ! idx) = Inr n" "0 \<le> n" "n \<le> 255"
    by blast
  have "length viridis = 256 \<longrightarrow> py_get viridis n = Inr (viridis ! nat n)"
    using n(2,3) by (auto intro: py_get_in_bounds)
  with n show "\<exists>n. norm_index um_min um_max (um_flat ! idx) = Inr n \<and> 0 \<le> n \<and> n \<le> 255 \<and>
              (length viridis = 256 \<longrightarrow> py_get viridis n = Inr (viridis ! nat n))"
    by blast
next
  fix d assume "um_min = um_max"
  then show "norm_index um_min um_max d = Inl ValueError" by (simp add: norm_index_def)
next
  fix n labels
  assume e: "um_min = um_max"
    and h: "hex_n_clusters hex_df = Inr n \<and> node_clustering fit_predict m n = Inr labels"
  show "build_hex_plot fit_predict palette viridis hex_df m um_flat = Inl ValueError"
    using build_hex_plot_constant_umatrix[of hex_df n fit_predict m labels um_flat um_max]
      h assms e by simp
qed

theorem build_hex_plot_palette_index_witness:
  "np_min [0, 1 / 2, 1] = Inr 0 \<and> np_max [0, 1 / 2, 1] = Inr 1 \<and>
   (\<exists>n. norm_index 0 1 ([0, 1 / 2, 1] ! 1) = Inr n \<and> 0 \<le> n \<and> n \<le> 255 \<and>
        py_get (replicate 256 ''#440154'') n = Inr (replicate 256 ''#440154'' ! nat n)) \<and>
   np_min [1, 1] = Inr 1 \<and> np_max [1, 1] = Inr 1 \<and>
   build_hex_plot (\<lambda>n ws. Inr [0, 0]) [''#1f77b4''] (replicate 256 ''#440154'')
     [(''hc_cluster'', IntCol [0])]
     \<lparr>x_dim = 1, y_dim = 2, n_features = 1, weights = [0, 1]\<rparr> [1, 1] = Inl ValueError"
proof -
  have a1: "np_min [0, 1 / 2, 1] = Inr 0" by (simp add: np_min_def)
  have a2: "np_max [0, 1 / 2, 1] = Inr 1" by (simp add: np_max_def)
  have a3: "(1::nat) < length [0, 1 / 2, 1::real]" by simp
  have a4: "length (replicate 256 ''#440154'') = 256" by simp
  have a5: "(0::real) < 1" by simp
  have b1: "np_min [1, 1] = Inr 1" by (simp add: np_min_def)
  have b2: "np_max [1, 1] = Inr 1" by (simp add: np_max_def)
  have b3: "hex_n_clusters [(''hc_cluster'', IntCol [0])] = Inr 1"
    by (simp add: hex_n_clusters_def lookup_def)
  have b4: "node_clustering (\<lambda>n ws. Inr [0, 0])
              \<lparr>x_dim = 1, y_dim = 2, n_features = 1, weights = [0, 1]\<rparr> 1 = Inr [0, 0]"
    by (simp add: node_clustering_def flat_weights_def)
  from build_hex_plot_palette_index[where viridis = "replicate 256 ''#440154''", OF a1 a2]
    a3 a4 a5
  have r1: "\<exists>n. norm_index 0 1 ([0, 1 / 2, 1] ! 1) = Inr n \<and> 0 \<le> n \<and> n \<le> 255 \<and>
        py_get (replicate 256 ''#440154'') n = Inr (replicate 256 ''#440154'' ! nat n)"
    by blast
  from build_hex_plot_palette_index[where hex_df = "[(''hc_cluster'', IntCol [0])]"
        and fit_predict = "\<lambda>n ws. Inr [0, 0]"
        and m = "\<lparr>x_dim = 1, y_dim = 2, n_features = 1, weights = [0, 1]\<rparr>"
        and palette = "[''#1f77b4'']"
        and viridis = "replicate 256 ''#440154''", OF b1 b2] b3 b4
  have r2: "build_hex_plot (\<lambda>n ws. Inr [0, 0]) [''#1f77b4''] (replicate 256 ''#440154'')
     [(''hc_cluster'', IntCol [0])]
     \<lparr>x_dim = 1, y_dim = 2, n_features = 1, weights = [0, 1]\<rparr> [1, 1] = Inl ValueError"
    by blast
  from a1 a2 r1 b1 b2 r2 show ?thesis by blast
qed


end
